theory Spec2Isabelle
  imports Main "HOL-Library.Multiset"
begin

section \<open>Data model (Backend/mazes.py)\<close>

text \<open>
  Positions are Python tuples \<open>(row, col)\<close> of unbounded integers. A grid is a list of
  rows, each a list of one-character strings: \<open>''#''\<close> is a wall, \<open>'' ''\<close> a path.
  The dictionaries \<open>keys\<close>, \<open>doors\<close> and \<open>books\<close> are iterated with \<open>.items()\<close>, so
  their insertion order is observable: they are association lists. \<open>portals\<close> is only
  looked up, so it is a map.
\<close>

type_synonym position = "int \<times> int"
type_synonym grid = "string list list"

record MazeConfig =
  maze_id :: int
  name :: string
  grid :: grid
  start_pos :: position
  keys :: "(string \<times> position) list"
  doors :: "(string \<times> position) list"
  books :: "(string \<times> position) list"
  portals :: "position \<rightharpoonup> position"

definition MAZE_1 :: MazeConfig where
  "MAZE_1 = \<lparr>
     maze_id = 1,
     name = ''Beginner Maze'',
     grid =
     [[''#'', ''#'', ''#'', ''#'', ''#'', ''#'', ''#'', ''#'', ''#'', ''#'', ''#''],
      [''#'', '' '', '' '', '' '', '' '', '' '', '' '', '' '', '' '', '' '', ''#''],
      [''#'', '' '', ''#'', ''#'', ''#'', ''#'', ''#'', ''#'', ''#'', ''#'', ''#''],
      [''#'', '' '', '' '', '' '', '' '', '' '', '' '', '' '', ''#'', '' '', ''#''],
      [''#'', '' '', ''#'', '' '', ''#'', ''#'', ''#'', '' '', ''#'', '' '', ''#''],
      [''#'', '' '', ''#'', '' '', '' '', '' '', ''#'', '' '', ''#'', '' '', ''#''],
      [''#'', '' '', ''#'', '' '', ''#'', '' '', ''#'', ''#'', ''#'', '' '', ''#''],
      [''#'', '' '', ''#'', '' '', ''#'', '' '', ''#'', '' '', '' '', '' '', ''#''],
      [''#'', '' '', ''#'', '' '', ''#'', '' '', ''#'', '' '', ''#'', ''#'', ''#''],
      [''#'', '' '', ''#'', '' '', ''#'', '' '', '' '', '' '', '' '', '' '', ''#''],
      [''#'', ''#'', ''#'', ''#'', ''#'', ''#'', ''#'', ''#'', ''#'', ''#'', ''#'']],
     start_pos = (1, 1),
     keys = [(''blue'', (1, 8)), (''orange'', (5, 5)), (''green'', (5, 3)),
             (''purple'', (8, 3)), (''red'', (1, 4))],
     doors = [(''blue'', (1, 7)), (''orange'', (9, 9)), (''green'', (9, 5)),
              (''purple'', (3, 9)), (''red'', (6, 5))],
     books = [(''blue'', (1, 7)), (''orange'', (9, 9)), (''green'', (9, 5)),
              (''purple'', (3, 9)), (''red'', (6, 5))],
     portals = [(9, 6) \<mapsto> (1, 2), (1, 2) \<mapsto> (9, 6), (3, 7) \<mapsto> (4, 7), (4, 7) \<mapsto> (3, 7)]
   \<rparr>"

definition MAZE_2 :: MazeConfig where
  "MAZE_2 = \<lparr>
     maze_id = 2,
     name = ''Intermediate Maze'',
     grid =
     [[''#'', ''#'', ''#'', ''#'', ''#'', ''#'', ''#'', ''#'', ''#'', ''#'', ''#'', ''#'', ''#'', ''#'', ''#''],
      [''#'', '' '', '' '', '' '', ''#'', '' '', '' '', '' '', ''#'', '' '', '' '', '' '', '' '', '' '', ''#''],
      [''#'', '' '', ''#'', ''#'', ''#'', '' '', ''#'', '' '', ''#'', ''#'', ''#'', '' '', ''#'', ''#'', ''#''],
      [''#'', '' '', '' '', '' '', '' '', '' '', ''#'', '' '', '' '', '' '', ''#'', '' '', '' '', '' '', ''#''],
      [''#'', '' '', ''#'', ''#'', ''#'', ''#'', ''#'', ''#'', ''#'', ''#'', ''#'', '' '', ''#'', ''#'', ''#''],
      [''#'', '' '', '' '', '' '', '' '', '' '', '' '', '' '', '' '', '' '', ''#'', '' '', '' '', '' '', ''#''],
      [''#'', ''#'', ''#'', '' '', ''#'', '' '', ''#'', '' '', ''#'', ''#'', ''#'', '' '', ''#'', '' '', ''#''],
      [''#'', '' '', ''#'', '' '', ''#'', '' '', ''#'', '' '', '' '', '' '', ''#'', '' '', ''#'', '' '', ''#''],
      [''#'', '' '', ''#'', '' '', ''#'', ''#'', ''#'', ''#'', ''#'', ''#'', ''#'', '' '', ''#'', ''#'', ''#''],
      [''#'', '' '', '' '', '' '', ''#'', '' '', '' '', '' '', '' '', '' '', ''#'', '' '', ''#'', '' '', ''#''],
      [''#'', ''#'', ''#'', '' '', ''#'', '' '', ''#'', ''#'', ''#'', ''#'', ''#'', '' '', ''#'', '' '', ''#''],
      [''#'', '' '', '' '', '' '', '' '', '' '', ''#'', '' '', ''#'', '' '', '' '', '' '', '' '', '' '', ''#''],
      [''#'', ''#'', ''#'', '' '', ''#'', '' '', ''#'', '' '', ''#'', '' '', ''#'', '' '', ''#'', ''#'', ''#''],
      [''#'', '' '', '' '', '' '', ''#'', '' '', '' '', '' '', '' '', '' '', ''#'', '' '', '' '', '' '', ''#''],
      [''#'', ''#'', ''#'', ''#'', ''#'', ''#'', ''#'', ''#'', ''#'', ''#'', ''#'', ''#'', ''#'', ''#'', ''#'']],
     start_pos = (1, 1),
     keys = [(''blue'', (7, 5)), (''orange'', (5, 4)), (''green'', (13, 11)),
             (''purple'', (2, 1)), (''red'', (9, 9))],
     doors = [(''blue'', (6, 3)), (''orange'', (1, 11)), (''green'', (11, 4)),
              (''purple'', (13, 6)), (''red'', (1, 12))],
     books = [(''blue'', (6, 3)), (''orange'', (1, 11)), (''green'', (11, 4)),
              (''purple'', (13, 6)), (''red'', (1, 12))],
     portals = [(8, 3) \<mapsto> (1, 9), (1, 9) \<mapsto> (8, 3), (13, 13) \<mapsto> (9, 1), (9, 1) \<mapsto> (13, 13)]
   \<rparr>"

definition MAZE_3 :: MazeConfig where
  "MAZE_3 = \<lparr>
     maze_id = 3,
     name = ''Advanced Maze'',
     grid =
     [[''#'', ''#'', ''#'', ''#'', ''#'', ''#'', ''#'', ''#'', ''#'', ''#'', ''#'', ''#'', ''#'', ''#'', ''#'', ''#'', ''#'', ''#'', ''#''],
      [''#'', '' '', '' '', '' '', '' '', '' '', '' '', '' '', '' '', '' '', ''#'', '' '', ''#'', '' '', '' '', '' '', ''#'', '' '', ''#''],
      [''#'', ''#'', ''#'', '' '', ''#'', ''#'', ''#'', ''#'', ''#'', ''#'', ''#'', '' '', ''#'', '' '', ''#'', '' '', ''#'', '' '', ''#''],
      [''#'', '' '', '' '', '' '', '' '', '' '', ''#'', '' '', '' '', '' '', '' '', '' '', '' '', '' '', ''#'', '' '', ''#'', '' '', ''#''],
      [''#'', '' '', ''#'', '' '', ''#'', ''#'', ''#'', '' '', ''#'', ''#'', ''#'', ''#'', ''#'', ''#'', ''#'', ''#'', ''#'', '' '', ''#''],
      [''#'', '' '', ''#'', '' '', '' '', '' '', '' '', '' '', '' '', '' '', '' '', '' '', '' '', '' '', '' '', '' '', '' '', '' '', ''#''],
      [''#'', ''#'', ''#'', '' '', ''#'', '' '', ''#'', '' '', ''#'', ''#'', ''#'', ''#'', ''#'', '' '', ''#'', ''#'', ''#'', ''#'', ''#''],
      [''#'', '' '', '' '', '' '', ''#'', '' '', ''#'', '' '', '' '', '' '', '' '', '' '', ''#'', '' '', '' '', '' '', '' '', '' '', ''#''],
      [''#'', '' '', ''#'', '' '', ''#'', ''#'', ''#'', '' '', ''#'', '' '', ''#'', '' '', ''#'', ''#'', ''#'', ''#'', ''#'', ''#'', ''#''],
      [''#'', '' '', ''#'', '' '', ''#'', '' '', '' '', '' '', ''#'', '' '', ''#'', '' '', '' '', '' '', '' '', '' '', '' '', '' '', ''#''],
      [''#'', '' '', ''#'', '' '', ''#'', '' '', ''#'', '' '', ''#'', ''#'', ''#'', '' '', ''#'', ''#'', ''#'', '' '', ''#'', '' '', ''#''],
      [''#'', '' '', ''#'', '' '', ''#'', '' '', ''#'', '' '', ''#'', '' '', ''#'', '' '', ''#'', '' '', ''#'', '' '', ''#'', '' '', ''#''],
      [''#'', ''#'', ''#'', ''#'', ''#'', '' '', ''#'', '' '', ''#'', '' '', ''#'', ''#'', ''#'', '' '', ''#'', ''#'', ''#'', ''#'', ''#''],
      [''#'', '' '', '' '', '' '', ''#'', '' '', ''#'', '' '', '' '', '' '', ''#'', '' '', '' '', '' '', '' '', '' '', '' '', '' '', ''#''],
      [''#'', '' '', ''#'', '' '', ''#'', ''#'', ''#'', '' '', ''#'', '' '', ''#'', '' '', ''#'', '' '', ''#'', ''#'', ''#'', ''#'', ''#''],
      [''#'', '' '', ''#'', '' '', '' '', '' '', '' '', '' '', ''#'', '' '', '' '', '' '', ''#'', '' '', '' '', '' '', '' '', '' '', ''#''],
      [''#'', '' '', ''#'', '' '', ''#'', ''#'', ''#'', '' '', ''#'', '' '', ''#'', '' '', ''#'', ''#'', ''#'', '' '', ''#'', '' '', ''#''],
      [''#'', '' '', ''#'', '' '', ''#'', '' '', '' '', '' '', ''#'', '' '', ''#'', '' '', '' '', '' '', ''#'', '' '', ''#'', '' '', ''#''],
      [''#'', ''#'', ''#'', ''#'', ''#'', ''#'', ''#'', ''#'', ''#'', ''#'', ''#'', ''#'', ''#'', ''#'', ''#'', ''#'', ''#'', ''#'', ''#'']],
     start_pos = (1, 1),
     keys = [(''blue'', (10, 17)), (''orange'', (15, 17)), (''green'', (13, 3)),
             (''purple'', (1, 14)), (''red'', (10, 15))],
     doors = [(''blue'', (17, 1)), (''orange'', (5, 3)), (''green'', (4, 1)),
              (''purple'', (9, 6)), (''red'', (17, 7))],
     books = [(''blue'', (17, 1)), (''orange'', (5, 3)), (''green'', (4, 1)),
              (''purple'', (9, 6)), (''red'', (17, 7))],
     portals = [(1, 3) \<mapsto> (8, 3), (8, 3) \<mapsto> (1, 3), (5, 16) \<mapsto> (15, 13), (15, 13) \<mapsto> (5, 16)]
   \<rparr>"

definition MAZES :: "int \<rightharpoonup> MazeConfig" where
  "MAZES = [1 \<mapsto> MAZE_1, 2 \<mapsto> MAZE_2, 3 \<mapsto> MAZE_3]"

text \<open>
  A small catalogue entry that is not shipped, used to instantiate general statements
  where the shipped data has no example: the red key and the red book share the cell
  \<open>(1, 2)\<close>, the portal at \<open>(1, 3)\<close> leads onto the blue door and the portal
  at \<open>(1, 4)\<close> leads outside the grid.
\<close>

definition EXAMPLE_MAZE :: MazeConfig where
  "EXAMPLE_MAZE = \<lparr>
     maze_id = 7,
     name = ''Example'',
     grid =
     [[''#'', ''#'', ''#'', ''#'', ''#'', ''#'', ''#''],
      [''#'', '' '', '' '', '' '', '' '', '' '', ''#''],
      [''#'', ''#'', ''#'', ''#'', ''#'', ''#'', ''#'']],
     start_pos = (1, 1),
     keys = [(''red'', (1, 2))],
     doors = [(''blue'', (1, 5))],
     books = [(''red'', (1, 2))],
     portals = [(1, 3) \<mapsto> (1, 5), (1, 4) \<mapsto> (-1, 9)]
   \<rparr>"

definition EXAMPLE_MAZES :: "int \<rightharpoonup> MazeConfig" where
  "EXAMPLE_MAZES = [7 \<mapsto> EXAMPLE_MAZE]"

text \<open>
  \<open>get_maze\<close> reads the module-level dictionary \<open>MAZES\<close>; the model passes that
  dictionary explicitly, so that properties can be stated for every catalogue and
  instantiated with the shipped one.
\<close>

definition get_maze :: "(int \<rightharpoonup> MazeConfig) \<Rightarrow> int \<Rightarrow> MazeConfig option" where
  "get_maze mazes mid = mazes mid"

section \<open>Python list indexing\<close>

datatype py_error = IndexError

text \<open>\<open>xs[i]\<close>: a negative index counts from the end, anything out of range raises.\<close>

definition py_index :: "'a list \<Rightarrow> int \<Rightarrow> py_error + 'a" where
  "py_index xs i =
     (if 0 \<le> i \<and> i < int (length xs) then Inr (xs ! nat i)
      else if - int (length xs) \<le> i \<and> i < 0 then Inr (xs ! nat (int (length xs) + i))
      else Inl IndexError)"

section \<open>Move validation (validate_move)\<close>

datatype move_result =
    Invalid string
  | Valid position "string list" "string list" bool

text \<open>
  \<open>Invalid e\<close> is \<open>{"valid": False, "error": e}\<close>; \<open>Valid p ks bs w\<close> is
  \<open>{"valid": True, "new_position": p, "collected_keys": ks, "collected_books": bs, "won": w}\<close>.
\<close>

definition direction_map :: "string \<rightharpoonup> int \<times> int" where
  "direction_map =
     [''up'' \<mapsto> (-1, 0), ''down'' \<mapsto> (1, 0), ''left'' \<mapsto> (0, -1), ''right'' \<mapsto> (0, 1)]"

text \<open>The inner loop over \<open>maze.doors.items()\<close>: the first locked door at the cell.\<close>

fun locked_door :: "(string \<times> position) list \<Rightarrow> position \<Rightarrow> string list \<Rightarrow> string option" where
  "locked_door [] p collected = None"
| "locked_door ((color, door_pos) # rest) p collected =
     (if p = door_pos \<and> color \<notin> set collected then Some color
      else locked_door rest p collected)"

text \<open>
  The outcome of the step loop: an exception, an early \<open>return\<close> of a rejection, or
  the cell reached when \<open>range(steps)\<close> is exhausted.
\<close>

datatype loop_exit = Raised py_error | Rejected string | Landed position

fun step_loop ::
  "MazeConfig \<Rightarrow> string list \<Rightarrow> int \<times> int \<Rightarrow> nat \<Rightarrow> position \<Rightarrow> loop_exit" where
  "step_loop maze collected d 0 p = Landed p"
| "step_loop maze collected d (Suc n) p =
     (let new_row = fst p + fst d; new_col = snd p + snd d in
      if new_row < 0 \<or> new_row \<ge> int (length (grid maze)) \<or> new_col < 0 then
        Rejected ''Hit wall or boundary''
      else
        (case py_index (grid maze) 0 of
           Inl e \<Rightarrow> Raised e
         | Inr row0 \<Rightarrow>
             if new_col \<ge> int (length row0) then Rejected ''Hit wall or boundary''
             else
               (case py_index (grid maze) new_row of
                  Inl e \<Rightarrow> Raised e
                | Inr row \<Rightarrow>
                    (case py_index row new_col of
                       Inl e \<Rightarrow> Raised e
                     | Inr cell \<Rightarrow>
                         if cell = ''#'' then Rejected ''Hit wall or boundary''
                         else
                           (case locked_door (doors maze) (new_row, new_col) collected of
                              Some color \<Rightarrow> Rejected (''Need '' @ color @ '' key to pass'')
                            | None \<Rightarrow> step_loop maze collected d n (new_row, new_col))))))"

text \<open>The two pickup loops; each tests membership in the list being extended.\<close>

fun pick_keys :: "(string \<times> position) list \<Rightarrow> position \<Rightarrow> string list \<Rightarrow> string list" where
  "pick_keys [] final_pos new_keys = new_keys"
| "pick_keys ((color, key_pos) # rest) final_pos new_keys =
     pick_keys rest final_pos
       (if final_pos = key_pos \<and> color \<notin> set new_keys then new_keys @ [color] else new_keys)"

fun pick_books ::
  "(string \<times> position) list \<Rightarrow> position \<Rightarrow> string list \<Rightarrow> string list \<Rightarrow> string list" where
  "pick_books [] final_pos new_keys new_books = new_books"
| "pick_books ((color, book_pos) # rest) final_pos new_keys new_books =
     pick_books rest final_pos new_keys
       (if final_pos = book_pos \<and> color \<in> set new_keys \<and> color \<notin> set new_books
        then new_books @ [color] else new_books)"

text \<open>\<open>collected_books\<close> defaults to \<open>None\<close>, which is replaced by the empty list.\<close>

definition books_or_empty :: "string list option \<Rightarrow> string list" where
  "books_or_empty collected_books = (case collected_books of None \<Rightarrow> [] | Some b \<Rightarrow> b)"

text \<open>\<open>range(steps)\<close> runs \<open>nat steps\<close> times (not at all for \<open>steps \<le> 0\<close>).\<close>

definition validate_move ::
  "(int \<rightharpoonup> MazeConfig) \<Rightarrow> int \<Rightarrow> position \<Rightarrow> string \<Rightarrow> int \<Rightarrow> string list \<Rightarrow>
   string list option \<Rightarrow> py_error + move_result" where
  "validate_move mazes mid current_pos direction steps collected_keys collected_books_opt =
     (case get_maze mazes mid of
        None \<Rightarrow> Inr (Invalid ''Invalid maze ID'')
      | Some maze \<Rightarrow>
          (let collected_books = books_or_empty collected_books_opt in
           case direction_map direction of
             None \<Rightarrow> Inr (Invalid ''Invalid direction'')
           | Some d \<Rightarrow>
               (case step_loop maze collected_keys d (nat steps) current_pos of
                  Raised e \<Rightarrow> Inl e
                | Rejected msg \<Rightarrow> Inr (Invalid msg)
                | Landed landing \<Rightarrow>
                    (let final_pos = (case portals maze landing of
                                        Some dest \<Rightarrow> dest | None \<Rightarrow> landing);
                         new_keys = pick_keys (keys maze) final_pos collected_keys;
                         new_books = pick_books (books maze) final_pos new_keys collected_books;
                         won = (length new_books = 5)
                     in Inr (Valid final_pos new_keys new_books won)))))"

section \<open>Maze generation (Backend/maze_generator.py)\<close>

text \<open>\<open>xs[i] = v\<close>, with the same index rules as reading.\<close>

definition py_assign :: "'a list \<Rightarrow> int \<Rightarrow> 'a \<Rightarrow> py_error + 'a list" where
  "py_assign xs i v =
     (if 0 \<le> i \<and> i < int (length xs) then Inr (xs[nat i := v])
      else if - int (length xs) \<le> i \<and> i < 0 then Inr (xs[nat (int (length xs) + i) := v])
      else Inl IndexError)"

text \<open>
  \<open>grid[row][col] = ' '\<close>: the row is read, then changed in place. The rows of the
  generated grid are separate lists, so only that row of the grid changes.
\<close>

definition carve_cell :: "grid \<Rightarrow> int \<Rightarrow> int \<Rightarrow> py_error + grid" where
  "carve_cell g row col =
     (case py_index g row of
        Inl e \<Rightarrow> Inl e
      | Inr cells \<Rightarrow>
          (case py_assign cells col '' '' of
             Inl e \<Rightarrow> Inl e
           | Inr cells' \<Rightarrow> py_assign g row cells'))"

definition directions :: "(int \<times> int) list" where
  "directions = [(-2, 0), (0, 2), (2, 0), (0, -2)]"

text \<open>An entry of the list \<open>walls\<close>: \<open>(wall_row, wall_col, neighbor_row, neighbor_col)\<close>.\<close>

type_synonym wall = "int \<times> int \<times> int \<times> int"

text \<open>The body of the loop of \<open>add_walls_to_list\<close>, for one direction.\<close>

definition add_wall ::
  "int \<Rightarrow> int \<Rightarrow> position set \<Rightarrow> int \<Rightarrow> int \<Rightarrow> int \<times> int \<Rightarrow> wall list \<Rightarrow> wall list" where
  "add_wall width height visited row col d walls =
     (let wall_row = row + fst d div 2; wall_col = col + snd d div 2;
          neighbor_row = row + fst d; neighbor_col = col + snd d
      in if 0 \<le> neighbor_row \<and> neighbor_row < height \<and> 0 \<le> neighbor_col \<and> neighbor_col < width \<and>
            0 \<le> wall_row \<and> wall_row < height \<and> 0 \<le> wall_col \<and> wall_col < width \<and>
            (neighbor_row, neighbor_col) \<notin> visited
         then walls @ [(wall_row, wall_col, neighbor_row, neighbor_col)]
         else walls)"

definition add_walls_to_list ::
  "int \<Rightarrow> int \<Rightarrow> position set \<Rightarrow> wall list \<Rightarrow> int \<Rightarrow> int \<Rightarrow> wall list" where
  "add_walls_to_list width height visited walls row col =
     fold (add_wall width height visited row col) directions walls"

definition is_valid_cell :: "int \<Rightarrow> int \<Rightarrow> int \<Rightarrow> int \<Rightarrow> bool" where
  "is_valid_cell width height row col = (0 \<le> row \<and> row < height \<and> 0 \<le> col \<and> col < width)"

text \<open>
  One iteration of the main loop. \<open>random.randint(0, len(walls) - 1)\<close> may return any
  index of the list: the model is given a random number \<open>r\<close> and reduces it modulo the
  length, so that every choice is covered by some \<open>r\<close>.
\<close>

definition loop_body ::
  "int \<Rightarrow> int \<Rightarrow> nat \<Rightarrow> grid \<Rightarrow> position set \<Rightarrow> wall list \<Rightarrow>
   py_error + (grid \<times> position set \<times> wall list)" where
  "loop_body width height r g visited walls =
     (let wall_index = r mod length walls;
          walls1 = take wall_index walls @ drop (Suc wall_index) walls
      in case walls ! wall_index of
           (wall_row, wall_col, cell_row, cell_col) \<Rightarrow>
             if (cell_row, cell_col) \<notin> visited \<and> is_valid_cell width height cell_row cell_col then
               (case carve_cell g wall_row wall_col of
                  Inl e \<Rightarrow> Inl e
                | Inr g1 \<Rightarrow>
                    (case carve_cell g1 cell_row cell_col of
                       Inl e \<Rightarrow> Inl e
                     | Inr g2 \<Rightarrow>
                         Inr (g2, insert (cell_row, cell_col) visited,
                              add_walls_to_list width height
                                (insert (cell_row, cell_col) visited) walls1 cell_row cell_col)))
             else Inr (g, visited, walls1))"

text \<open>
  What decreases in every iteration: the number of cells of the grid not yet visited
  and, when no cell is visited, the length of the list.
\<close>

lemma loop_body_decreases:
  assumes "walls \<noteq> []" and "loop_body width height r g visited walls = Inr (g', visited', walls')"
  shows "card (({0..<height} \<times> {0..<width}) - visited') < card (({0..<height} \<times> {0..<width}) - visited)
         \<or> (visited' = visited \<and> length walls' < length walls)"
proof -
  obtain wr wc cr cc where w: "walls ! (r mod length walls) = (wr, wc, cr, cc)"
    by (cases "walls ! (r mod length walls)") auto
  have i: "r mod length walls < length walls" using assms(1) by simp
  show ?thesis
  proof (cases "(cr, cc) \<notin> visited \<and> is_valid_cell width height cr cc")
    case True
    with assms(2) w have v: "visited' = insert (cr, cc) visited"
      by (auto simp: loop_body_def Let_def split: sum.splits)
    from True have "(cr, cc) \<in> ({0..<height} \<times> {0..<width}) - visited"
      by (simp add: is_valid_cell_def)
    moreover have "finite (({0..<height} \<times> {0..<width}) - visited)" by simp
    ultimately have "card ((({0..<height} \<times> {0..<width}) - visited) - {(cr, cc)}) <
        card (({0..<height} \<times> {0..<width}) - visited)"
      by (rule card_Diff1_less[rotated])
    moreover have "({0..<height} \<times> {0..<width}) - insert (cr, cc) visited =
        (({0..<height} \<times> {0..<width}) - visited) - {(cr, cc)}" by blast
    ultimately show ?thesis unfolding v by simp
  next
    case False
    with assms(2) w have "visited' = visited"
      and "walls' = take (r mod length walls) walls @ drop (Suc (r mod length walls)) walls"
      by (auto simp: loop_body_def Let_def)
    with i show ?thesis by simp
  qed
qed

text \<open>
  The main loop draws the \<open>t\<close>-th number of the stream \<open>rnd\<close> in its \<open>t\<close>-th iteration.
  It returns the grid together with \<open>visited\<close> and \<open>walls\<close> as they are when it exits.
\<close>

function prim_loop ::
  "int \<Rightarrow> int \<Rightarrow> (nat \<Rightarrow> nat) \<Rightarrow> nat \<Rightarrow> grid \<Rightarrow> position set \<Rightarrow> wall list \<Rightarrow>
   py_error + (grid \<times> position set \<times> wall list)" where
  "prim_loop width height rnd t g visited walls =
     (if walls = [] then Inr (g, visited, walls)
      else
        (case loop_body width height (rnd t) g visited walls of
           Inl e \<Rightarrow> Inl e
         | Inr (g', visited', walls') \<Rightarrow> prim_loop width height rnd (Suc t) g' visited' walls'))"
  by pat_completeness auto

termination
proof (relation "measures
    [\<lambda>(width, height, rnd, t, g, visited, walls).
        card (({0..<height} \<times> {0..<width}) - visited),
     \<lambda>(width, height, rnd, t, g, visited, walls). length walls]", goal_cases)
  case 1
  show ?case by simp
next
  case (2 width height rnd t g visited walls st g' rest visited' walls')
  then have "loop_body width height (rnd t) g visited walls = Inr (g', visited', walls')"
    by simp
  from loop_body_decreases[OF 2(1) this] show ?case by auto
qed

definition generate_maze ::
  "(nat \<Rightarrow> nat) \<Rightarrow> int \<Rightarrow> int \<Rightarrow> position \<Rightarrow> py_error + grid" where
  "generate_maze rnd width height start =
     (let g = replicate (nat height) (replicate (nat width) ''#'') in
      case start of
        (start_row, start_col) \<Rightarrow>
          (case carve_cell g start_row start_col of
             Inl e \<Rightarrow> Inl e
           | Inr g1 \<Rightarrow>
               (case prim_loop width height rnd 0 g1 {(start_row, start_col)}
                       (add_walls_to_list width height {(start_row, start_col)} []
                          start_row start_col) of
                  Inl e \<Rightarrow> Inl e
                | Inr (g2, visited, walls) \<Rightarrow> Inr g2)))"

text \<open>
  \<open>place_special_items\<close>. A new key of a Python dictionary is appended to the iteration
  order, an existing one keeps its place.
\<close>

fun dict_set :: "'k \<Rightarrow> 'v \<Rightarrow> ('k \<times> 'v) list \<Rightarrow> ('k \<times> 'v) list" where
  "dict_set k v [] = [(k, v)]"
| "dict_set k v ((k', v') # rest) =
     (if k' = k then (k, v) # rest else (k', v') # dict_set k v rest)"

text \<open>The two nested loops that collect \<open>empty_cells\<close>.\<close>

fun scan_cols ::
  "string list \<Rightarrow> position \<Rightarrow> int \<Rightarrow> nat list \<Rightarrow> position list \<Rightarrow> py_error + position list" where
  "scan_cols cells start row [] empty_cells = Inr empty_cells"
| "scan_cols cells start row (col # cols) empty_cells =
     (case py_index cells (int col) of
        Inl e \<Rightarrow> Inl e
      | Inr cell \<Rightarrow>
          scan_cols cells start row cols
            (if cell = '' '' \<and> (row, int col) \<noteq> start then empty_cells @ [(row, int col)]
             else empty_cells))"

fun scan_rows ::
  "grid \<Rightarrow> position \<Rightarrow> nat \<Rightarrow> nat list \<Rightarrow> position list \<Rightarrow> py_error + position list" where
  "scan_rows g start width [] empty_cells = Inr empty_cells"
| "scan_rows g start width (row # rows) empty_cells =
     (case py_index g (int row) of
        Inl e \<Rightarrow> Inl e
      | Inr cells \<Rightarrow>
          (case scan_cols cells start (int row) [0..<width] empty_cells of
             Inl e \<Rightarrow> Inl e
           | Inr empty_cells1 \<Rightarrow> scan_rows g start width rows empty_cells1))"

definition colors :: "string list" where
  "colors = [''blue'', ''orange'', ''green'', ''purple'', ''red'']"

text \<open>
  The loop over the colours; \<open>pop()\<close> takes the last cell of the list. It returns the
  cells left over with the three dictionaries.
\<close>

fun place_colors ::
  "string list \<Rightarrow> position list \<Rightarrow> (string \<times> position) list \<Rightarrow> (string \<times> position) list \<Rightarrow>
   (string \<times> position) list \<Rightarrow>
   position list \<times> (string \<times> position) list \<times> (string \<times> position) list \<times> (string \<times> position) list" where
  "place_colors [] empty_cells ks ds bs = (empty_cells, ks, ds, bs)"
| "place_colors (color # rest) empty_cells ks ds bs =
     (let (cells1, ks1) =
            (if empty_cells \<noteq> [] then (butlast empty_cells, dict_set color (last empty_cells) ks)
             else (empty_cells, ks));
          (cells2, ds1, bs1) =
            (if cells1 \<noteq> [] then
               (butlast cells1, dict_set color (last cells1) ds, dict_set color (last cells1) bs)
             else (cells1, ds, bs))
      in place_colors rest cells2 ks1 ds1 bs1)"

text \<open>The loop over \<open>range(0, min(num_portals * 2, len(empty_cells)), 2)\<close>.\<close>

fun place_portals ::
  "nat list \<Rightarrow> position list \<Rightarrow> (position \<rightharpoonup> position) \<Rightarrow> (position \<rightharpoonup> position)" where
  "place_portals [] empty_cells ps = ps"
| "place_portals (i # rest) empty_cells ps =
     place_portals rest empty_cells
       (if i + 1 < length empty_cells then
          (ps(empty_cells ! i \<mapsto> empty_cells ! (i + 1)))(empty_cells ! (i + 1) \<mapsto> empty_cells ! i)
        else ps)"

text \<open>
  \<open>random.shuffle\<close> leaves some permutation of the list; the model takes the
  permutation as the function \<open>shuffle\<close>. \<open>len(grid[0])\<close> raises on an empty grid, and
  \<open>grid[row][col]\<close> on a row shorter than the first one.
\<close>

definition place_special_items ::
  "(position list \<Rightarrow> position list) \<Rightarrow> grid \<Rightarrow> position \<Rightarrow> int \<Rightarrow> int \<Rightarrow> int \<Rightarrow>
   py_error + ((string \<times> position) list \<times> (string \<times> position) list \<times>
               (string \<times> position) list \<times> (position \<rightharpoonup> position))" where
  "place_special_items shuffle g start num_keys num_doors num_portals =
     (case py_index g 0 of
        Inl e \<Rightarrow> Inl e
      | Inr row0 \<Rightarrow>
          (case scan_rows g start (length row0) [0..<length g] [] of
             Inl e \<Rightarrow> Inl e
           | Inr scanned \<Rightarrow>
               (let empty_cells = shuffle scanned;
                    n = min num_keys (min (int (length colors)) (int (length empty_cells) div 2))
                in case place_colors (take (nat n) colors) empty_cells [] [] [] of
                     (empty_cells1, ks, ds, bs) \<Rightarrow>
                       (let m = min (num_portals * 2) (int (length empty_cells1));
                            ps = place_portals (filter even [0..<nat m]) empty_cells1 Map.empty
                        in Inr (ks, ds, bs, ps)))))"

text \<open>
  \<open>generate_complete_maze\<close>; the dictionary it returns has the fields of a
  \<open>MazeConfig\<close>.
\<close>

definition generate_complete_maze ::
  "(nat \<Rightarrow> nat) \<Rightarrow> (position list \<Rightarrow> position list) \<Rightarrow> int \<Rightarrow> int \<Rightarrow> position \<Rightarrow> int \<Rightarrow> string \<Rightarrow>
   py_error + MazeConfig" where
  "generate_complete_maze rnd shuffle width height start mid nm =
     (let width1 = (if width mod 2 = 0 then width + 1 else width);
          height1 = (if height mod 2 = 0 then height + 1 else height)
      in case generate_maze rnd width1 height1 start of
           Inl e \<Rightarrow> Inl e
         | Inr g \<Rightarrow>
             (case place_special_items shuffle g start 5 5 2 of
                Inl e \<Rightarrow> Inl e
              | Inr (ks, ds, bs, ps) \<Rightarrow>
                  Inr \<lparr>maze_id = mid, name = nm, grid = g, start_pos = start,
                       keys = ks, doors = ds, books = bs, portals = ps\<rparr>))"

section \<open>The caller (submit_move in Backend/main.py)\<close>

record MoveSubmission =
  direction :: string
  steps :: int
  maze_id :: int

record GameState =
  position :: position
  collected_keys :: "string list"
  collected_books :: "string list"

datatype response =
    HTTPException nat string
  | Unhandled py_error
  | Returned move_result

text \<open>
  The global dictionary \<open>game_states\<close> is passed in and returned. Its key is the string
  \<open>f"{user_id}_{move.maze_id}"\<close> of two integers, which determines both of them, so the
  model uses the pair. The argument \<open>user\<close> is the id of the row that
  \<open>get_user_by_email(verify_token(...))\<close> found, if any; token checking and the
  \<open>save_attempt\<close> database insert are external and not modelled.
\<close>

definition submit_move ::
  "(int \<rightharpoonup> MazeConfig) \<Rightarrow> (int \<times> int \<rightharpoonup> GameState) \<Rightarrow> int option \<Rightarrow> MoveSubmission \<Rightarrow>
   response \<times> (int \<times> int \<rightharpoonup> GameState)" where
  "submit_move mazes game_states user move =
     (case user of
        None \<Rightarrow> (HTTPException 401 ''User not found'', game_states)
      | Some user_id \<Rightarrow>
          (let game_key = (user_id, maze_id move);
               initialised =
                 (case game_states game_key of
                    Some st \<Rightarrow> Some st
                  | None \<Rightarrow>
                      (case mazes (maze_id move) of
                         None \<Rightarrow> None
                       | Some maze \<Rightarrow>
                           Some \<lparr>position = start_pos maze, collected_keys = [],
                                 collected_books = []\<rparr>))
           in case initialised of
                None \<Rightarrow> (HTTPException 404 ''Maze not found'', game_states)
              | Some current_state \<Rightarrow>
                  (let game_states1 = game_states(game_key \<mapsto> current_state) in
                   case validate_move mazes (maze_id move) (position current_state)
                          (direction move) (steps move) (collected_keys current_state)
                          (Some (collected_books current_state)) of
                     Inl e \<Rightarrow> (Unhandled e, game_states1)
                   | Inr (Invalid msg) \<Rightarrow> (Returned (Invalid msg), game_states1)
                   | Inr (Valid new_position new_keys new_books won) \<Rightarrow>
                       (Returned (Valid new_position new_keys new_books won),
                        if won then game_states1(game_key := None)
                        else game_states1(game_key \<mapsto>
                               \<lparr>position = new_position, collected_keys = new_keys,
                                collected_books = new_books\<rparr>)))))"

text \<open>Successive requests of one user, each made on the state the previous one left.\<close>

fun submit_moves ::
  "(int \<rightharpoonup> MazeConfig) \<Rightarrow> (int \<times> int \<rightharpoonup> GameState) \<Rightarrow> int option \<Rightarrow>
   MoveSubmission list \<Rightarrow> response list \<times> (int \<times> int \<rightharpoonup> GameState)" where
  "submit_moves mazes game_states user [] = ([], game_states)"
| "submit_moves mazes game_states user (move # rest) =
     (case submit_move mazes game_states user move of
        (r, game_states1) \<Rightarrow>
          (case submit_moves mazes game_states1 user rest of
             (rs, game_states2) \<Rightarrow> (r # rs, game_states2)))"

section \<open>Vocabulary of the specification\<close>

text \<open>The cell reached after \<open>k\<close> unit steps from \<open>p\<close> along \<open>d\<close>.\<close>

definition cell_after :: "position \<Rightarrow> int \<times> int \<Rightarrow> nat \<Rightarrow> position" where
  "cell_after p d k = (fst p + int k * fst d, snd p + int k * snd d)"

text \<open>A grid is rectangular when every row is as long as the first one.\<close>

definition rectangular :: "grid \<Rightarrow> bool" where
  "rectangular g = list_all (\<lambda>row. length row = length (hd g)) g"

text \<open>BlockedMove: the cell is outside the grid bounds or is a wall.\<close>

definition blocked :: "MazeConfig \<Rightarrow> position \<Rightarrow> bool" where
  "blocked maze q =
     (fst q < 0 \<or> fst q \<ge> int (length (grid maze)) \<or>
      snd q < 0 \<or> snd q \<ge> int (length (hd (grid maze))) \<or>
      grid maze ! nat (fst q) ! nat (snd q) = ''#'')"

text \<open>LockedDoor: some door sits on the cell and its colour is not among the keys held.\<close>

definition locked :: "MazeConfig \<Rightarrow> string list \<Rightarrow> position \<Rightarrow> bool" where
  "locked maze collected q = list_ex (\<lambda>(color, door_pos). door_pos = q \<and> color \<notin> set collected) (doors maze)"

text \<open>Every one of the first \<open>n\<close> stepped cells passes both checks.\<close>

definition path_clear :: "MazeConfig \<Rightarrow> string list \<Rightarrow> position \<Rightarrow> int \<times> int \<Rightarrow> nat \<Rightarrow> bool" where
  "path_clear maze collected p d n =
     list_all (\<lambda>k. \<not> blocked maze (cell_after p d k) \<and> \<not> locked maze collected (cell_after p d k)) [1..<Suc n]"

text \<open>An open cell: within the bounds of the grid and carrying the path symbol.\<close>

definition open_cell :: "grid \<Rightarrow> position \<Rightarrow> bool" where
  "open_cell g p =
     (0 \<le> fst p \<and> fst p < int (length g) \<and> 0 \<le> snd p \<and>
      snd p < int (length (g ! nat (fst p))) \<and> g ! nat (fst p) ! nat (snd p) = '' '')"

text \<open>
  The invariant of a maze definition: every key, door, book and portal position is an
  open cell other than the start; the portal map is symmetric; every door has the book of
  its colour on its own cell.
\<close>

definition items_ok :: "MazeConfig \<Rightarrow> bool" where
  "items_ok maze =
     ((\<forall>color p. (color, p) \<in> set (keys maze) \<union> set (doors maze) \<union> set (books maze) \<longrightarrow>
         open_cell (grid maze) p \<and> p \<noteq> start_pos maze) \<and>
      (\<forall>a b. portals maze a = Some b \<longrightarrow>
         open_cell (grid maze) a \<and> open_cell (grid maze) b \<and>
         a \<noteq> start_pos maze \<and> b \<noteq> start_pos maze \<and> portals maze b = Some a) \<and>
      (\<forall>color p. (color, p) \<in> set (doors maze) \<longrightarrow> map_of (books maze) color = Some p))"

section \<open>Properties of the step loop\<close>

lemma cell_after_0: "cell_after p d 0 = p" by (simp add: cell_after_def)
lemma path_clear_iff: "path_clear maze ks p d n \<longleftrightarrow> (\<forall>k. 1 \<le> k \<and> k \<le> n \<longrightarrow> \<not> blocked maze (cell_after p d k) \<and> \<not> locked maze ks (cell_after p d k))"
  by (auto simp: path_clear_def list_all_iff)

lemma locked_door_None: "locked_door ds q ks = None \<longleftrightarrow> \<not> list_ex (\<lambda>(color, door_pos). door_pos = q \<and> color \<notin> set ks) ds"
  by (induction ds q ks rule: locked_door.induct) auto

lemma locked_door_Some: "locked_door ds q ks = Some c \<Longrightarrow> (c, q) \<in> set ds \<and> c \<notin> set ks"
  by (induction ds q ks rule: locked_door.induct) (auto split: if_splits)

lemma py_index_in: "0 \<le> i \<Longrightarrow> i < int (length xs) \<Longrightarrow> py_index xs i = Inr (xs ! nat i)"
  by (simp add: py_index_def)

lemma rect_row: "rectangular g \<Longrightarrow> 0 \<le> r \<Longrightarrow> r < int (length g) \<Longrightarrow> length (g ! nat r) = length (hd g)"
  by (simp add: rectangular_def list_all_iff)

lemma py_index_0: "g \<noteq> [] \<Longrightarrow> py_index g 0 = Inr (hd g)"
  by (cases g) (simp_all add: py_index_def)

text \<open>One iteration of the loop on a rectangular grid, in the vocabulary of the specification.\<close>

lemma step_loop_Suc_rect:
  assumes "rectangular (grid maze)"
  shows "step_loop maze ks d (Suc n) p =
     (if blocked maze (cell_after p d (Suc 0)) then Rejected ''Hit wall or boundary''
      else case locked_door (doors maze) (cell_after p d (Suc 0)) ks of
             Some color \<Rightarrow> Rejected (''Need '' @ color @ '' key to pass'')
           | None \<Rightarrow> step_loop maze ks d n (cell_after p d (Suc 0)))"
proof -
  let ?r = "fst p + fst d" and ?c = "snd p + snd d"
  have q: "cell_after p d (Suc 0) = (?r, ?c)" by (simp add: cell_after_def)
  show ?thesis
  proof (cases "?r < 0 \<or> ?r \<ge> int (length (grid maze)) \<or> ?c < 0")
    case True
    then show ?thesis by (auto simp: q blocked_def Let_def)
  next
    case False
    then have ne: "grid maze \<noteq> []" by auto
    from False have r: "0 \<le> ?r" "?r < int (length (grid maze))" "0 \<le> ?c" by auto
    show ?thesis
    proof (cases "?c \<ge> int (length (hd (grid maze)))")
      case True
      with False ne show ?thesis by (simp add: q blocked_def Let_def py_index_0)
    next
      case c: False
      have len: "length (grid maze ! nat ?r) = length (hd (grid maze))"
        using rect_row[OF assms r(1,2)] .
      have i1: "py_index (grid maze) ?r = Inr (grid maze ! nat ?r)" using r by (simp add: py_index_in)
      have i2: "py_index (grid maze ! nat ?r) ?c = Inr (grid maze ! nat ?r ! nat ?c)"
        using r c len by (simp add: py_index_in)
      show ?thesis using False c ne
        by (simp add: q blocked_def Let_def py_index_0 i1 i2 split: option.split)
    qed
  qed
qed


lemma cell_after_shift: "cell_after (cell_after p d (Suc 0)) d k = cell_after p d (Suc k)"
  by (simp add: cell_after_def algebra_simps)

lemma path_clear_Suc_left:
  "path_clear maze ks p d (Suc n) \<longleftrightarrow>
     \<not> blocked maze (cell_after p d (Suc 0)) \<and> \<not> locked maze ks (cell_after p d (Suc 0)) \<and>
     path_clear maze ks (cell_after p d (Suc 0)) d n"
proof -
  have e: "[1..<Suc (Suc n)] = Suc 0 # map Suc [1..<Suc n]"
    by (simp add: map_Suc_upt upt_conv_Cons del: upt_Suc)
  show ?thesis
    unfolding path_clear_def e by (simp add: list.pred_map comp_def cell_after_shift del: upt_Suc)
qed

lemma locked_iff: "locked maze ks q \<longleftrightarrow> locked_door (doors maze) q ks \<noteq> None"
  by (simp add: locked_def locked_door_None)

lemma step_loop_clear:
  "rectangular (grid maze) \<Longrightarrow> path_clear maze ks p d n \<Longrightarrow>
   step_loop maze ks d n p = Landed (cell_after p d n)"
proof (induction n arbitrary: p)
  case 0
  then show ?case by (simp add: cell_after_0)
next
  case (Suc n)
  from Suc.prems(2) have a: "\<not> blocked maze (cell_after p d (Suc 0))"
    "locked_door (doors maze) (cell_after p d (Suc 0)) ks = None"
    "path_clear maze ks (cell_after p d (Suc 0)) d n"
    by (simp_all add: path_clear_Suc_left locked_iff)
  show ?case
    using Suc.IH[OF Suc.prems(1) a(3)] a(1,2)
    by (simp add: step_loop_Suc_rect[OF Suc.prems(1)] cell_after_shift del: step_loop.simps)
qed

lemma step_loop_first_fail:
  "rectangular (grid maze) \<Longrightarrow> path_clear maze ks p d k \<Longrightarrow> k < n \<Longrightarrow>
   step_loop maze ks d n p =
     (if blocked maze (cell_after p d (Suc k)) then Rejected ''Hit wall or boundary''
      else case locked_door (doors maze) (cell_after p d (Suc k)) ks of
             Some color \<Rightarrow> Rejected (''Need '' @ color @ '' key to pass'')
           | None \<Rightarrow> step_loop maze ks d (n - Suc k) (cell_after p d (Suc k)))"
proof (induction k arbitrary: p n)
  case 0
  then obtain m where n: "n = Suc m" by (cases n) auto
  show ?case unfolding n
    by (simp add: step_loop_Suc_rect[OF 0(1)] del: step_loop.simps split: option.split)
next
  case (Suc k)
  then obtain m where n: "n = Suc m" and km: "k < m" by (cases n) auto
  from Suc.prems(2) have a: "\<not> blocked maze (cell_after p d (Suc 0))"
    "locked_door (doors maze) (cell_after p d (Suc 0)) ks = None"
    "path_clear maze ks (cell_after p d (Suc 0)) d k"
    by (simp_all add: path_clear_Suc_left locked_iff)
  show ?case unfolding n
    using Suc.IH[OF Suc.prems(1) a(3) km, unfolded cell_after_shift] a(1,2)
    by (simp add: step_loop_Suc_rect[OF Suc.prems(1)] del: step_loop.simps cong: option.case_cong)
qed


text \<open>Without any assumption on the grid: a loop that lands has checked every cell.\<close>
lemma step_loop_Landed:
  "step_loop maze ks d n p = Landed q \<Longrightarrow> q = cell_after p d n \<and> path_clear maze ks p d n"
proof (induction n arbitrary: p)
  case 0
  then show ?case by (simp add: cell_after_0 path_clear_def)
next
  case (Suc n)
  let ?r = "fst p + fst d" and ?c = "snd p + snd d"
  have q: "cell_after p d (Suc 0) = (?r, ?c)" "cell_after p d (Suc 0) = (?r, ?c)" by (simp_all add: cell_after_def)
  from Suc.prems have b: "0 \<le> ?r" "?r < int (length (grid maze))" "0 \<le> ?c"
    by (auto simp: Let_def split: if_splits)
  then have ne: "grid maze \<noteq> []" by auto
  from Suc.prems b ne have c: "?c < int (length (hd (grid maze)))"
    by (auto simp: Let_def py_index_0 split: if_splits)
  have i1: "py_index (grid maze) ?r = Inr (grid maze ! nat ?r)" using b by (simp add: py_index_in)
  from Suc.prems b ne c obtain cell where
    cell: "py_index (grid maze ! nat ?r) ?c = Inr cell" "cell \<noteq> ''#''"
    and ld: "locked_door (doors maze) (?r, ?c) ks = None"
    and rest: "step_loop maze ks d n (?r, ?c) = Landed q"
    by (auto simp: Let_def py_index_0 i1 split: if_splits sum.splits option.splits)
  from cell(1) b have "cell = grid maze ! nat ?r ! nat ?c"
    by (auto simp: py_index_def Let_def split: if_splits)
  with cell(2) b c have nb: "\<not> blocked maze (cell_after p d (Suc 0))"
    by (simp add: q blocked_def)
  from ld have nl: "\<not> locked maze ks (cell_after p d (Suc 0))" by (simp add: q locked_iff)
  from Suc.IH[of "(?r, ?c)"] rest have "q = cell_after (cell_after p d (Suc 0)) d n \<and> path_clear maze ks (cell_after p d (Suc 0)) d n"
    by (simp add: q)
  with nb nl show ?case by (simp add: path_clear_Suc_left cell_after_shift)
qed

section \<open>Properties of the pickup loops\<close>

lemma set_pick_keys:
  "set (pick_keys al fp ks) = set ks \<union> {c. (c, fp) \<in> set al}"
  by (induction al fp ks rule: pick_keys.induct) auto

lemma set_pick_books:
  "set (pick_books al fp nk bs) = set bs \<union> {c. (c, fp) \<in> set al \<and> c \<in> set nk}"
  by (induction al fp nk bs rule: pick_books.induct) auto

lemma distinct_pick_books:
  "distinct bs \<Longrightarrow> distinct (pick_books al fp nk bs)"
  by (induction al fp nk bs rule: pick_books.induct) auto

section \<open>Unfolding validate_move\<close>

lemma validate_move_unfold:
  assumes "mazes mid = Some maze" and "direction_map dir = Some d"
  shows "validate_move mazes mid pos dir n ks bs =
     (case step_loop maze ks d (nat n) pos of
        Raised e \<Rightarrow> Inl e
      | Rejected msg \<Rightarrow> Inr (Invalid msg)
      | Landed landing \<Rightarrow>
          (let final_pos = (case portals maze landing of Some dest \<Rightarrow> dest | None \<Rightarrow> landing);
               new_keys = pick_keys (keys maze) final_pos ks;
               new_books = pick_books (books maze) final_pos new_keys (books_or_empty bs)
           in Inr (Valid final_pos new_keys new_books (length new_books = 5))))"
  using assms by (simp add: validate_move_def get_maze_def Let_def split: loop_exit.split)

lemma validate_move_ValidD:
  assumes "validate_move mazes mid pos dir n ks bs = Inr (Valid p ks' bs' w)"
  obtains maze d landing where
    "mazes mid = Some maze" "direction_map dir = Some d"
    "step_loop maze ks d (nat n) pos = Landed landing"
    "p = (case portals maze landing of Some dest \<Rightarrow> dest | None \<Rightarrow> landing)"
    "ks' = pick_keys (keys maze) p ks"
    "bs' = pick_books (books maze) p ks' (books_or_empty bs)"
    "w = (length bs' = 5)"
proof -
  from assms obtain maze where m: "mazes mid = Some maze"
    by (auto simp: validate_move_def get_maze_def split: option.splits)
  from assms m obtain d where d: "direction_map dir = Some d"
    by (auto simp: validate_move_def get_maze_def Let_def split: option.splits)
  have u: "validate_move mazes mid pos dir n ks bs =
     (case step_loop maze ks d (nat n) pos of
        Raised e \<Rightarrow> Inl e
      | Rejected msg \<Rightarrow> Inr (Invalid msg)
      | Landed landing \<Rightarrow>
          (let final_pos = (case portals maze landing of Some dest \<Rightarrow> dest | None \<Rightarrow> landing);
               new_keys = pick_keys (keys maze) final_pos ks;
               new_books = pick_books (books maze) final_pos new_keys (books_or_empty bs)
           in Inr (Valid final_pos new_keys new_books (length new_books = 5))))"
    using m d by (rule validate_move_unfold)
  from assms u obtain landing where l: "step_loop maze ks d (nat n) pos = Landed landing"
    by (cases "step_loop maze ks d (nat n) pos") auto
  let ?f = "case portals maze landing of Some dest \<Rightarrow> dest | None \<Rightarrow> landing"
  let ?k = "pick_keys (keys maze) ?f ks"
  let ?b = "pick_books (books maze) ?f ?k (books_or_empty bs)"
  have e: "validate_move mazes mid pos dir n ks bs = Inr (Valid ?f ?k ?b (length ?b = 5))"
    unfolding u l by (simp add: Let_def)
  have "(Inr (Valid ?f ?k ?b (length ?b = 5)) :: py_error + move_result) = Inr (Valid p ks' bs' w)"
    using e[symmetric] assms by (rule trans)
  then have "Valid ?f ?k ?b (length ?b = 5) = Valid p ks' bs' w"
    by (rule Inr_inject)
  then have c: "?f = p \<and> ?k = ks' \<and> ?b = bs' \<and> (length ?b = 5) = w"
    by (rule move_result.inject(2)[THEN iffD1])
  from c have p: "p = ?f" by blast
  from c have k: "ks' = ?k" by blast
  from c have b: "bs' = ?b" by blast
  from c have w: "w = (length ?b = 5)" by blast
  show thesis
  proof (rule that[OF m d l])
    show "p = ?f" by (rule p)
    show "ks' = pick_keys (keys maze) p ks" unfolding k p ..
    show "bs' = pick_books (books maze) p ks' (books_or_empty bs)" unfolding b k p ..
    show "w = (length bs' = 5)" unfolding w b ..
  qed
qed

section \<open>Win detection\<close>

text \<open>
  Claim C5. For every accepted move, the returned \<open>won\<close> flag is true if and only if
  the outgoing list of collected books has exactly 5 entries, whatever the colours are.
  When the incoming list has no duplicates, neither has the outgoing one, so the length
  is the number of distinct books held.
\<close>

theorem won_iff_five_books:
  assumes "validate_move mazes mid pos dir n ks bs = Inr (Valid p ks' bs' w)"
  shows "(w \<longleftrightarrow> length bs' = 5) \<and>
         (distinct (books_or_empty bs) \<longrightarrow> (w \<longleftrightarrow> card (set bs') = 5))"
proof -
  from assms obtain maze d landing where
    "mazes mid = Some maze" and "direction_map dir = Some d" and
    "step_loop maze ks d (nat n) pos = Landed landing" and
    "p = (case portals maze landing of Some dest \<Rightarrow> dest | None \<Rightarrow> landing)" and
    "ks' = pick_keys (keys maze) p ks" and
    b: "bs' = pick_books (books maze) p ks' (books_or_empty bs)" and w: "w = (length bs' = 5)"
    by (rule validate_move_ValidD)
  have "distinct (books_or_empty bs) \<Longrightarrow> card (set bs') = length bs'"
    unfolding b by (rule distinct_card) (rule distinct_pick_books)
  with w show ?thesis by simp
qed

theorem won_iff_five_books_witness:
  "validate_move MAZES 1 (5, 5) ''down'' 1 [''red''] (Some [''a'', ''b'', ''c'', ''d''])
     = Inr (Valid (6, 5) [''red''] [''a'', ''b'', ''c'', ''d'', ''red''] True) \<and>
   (True \<longleftrightarrow> length [''a'', ''b'', ''c'', ''d'', ''red''] = 5) \<and>
   distinct (books_or_empty (Some [''a'', ''b'', ''c'', ''d''])) \<and>
   (True \<longleftrightarrow> card (set [''a'', ''b'', ''c'', ''d'', ''red'']) = 5)"
proof -
  have h: "validate_move MAZES 1 (5, 5) ''down'' 1 [''red''] (Some [''a'', ''b'', ''c'', ''d''])
     = Inr (Valid (6, 5) [''red''] [''a'', ''b'', ''c'', ''d'', ''red''] True)"
    by code_simp
  have di: "distinct (books_or_empty (Some [''a'', ''b'', ''c'', ''d'']))"
    by (simp add: books_or_empty_def)
  note t = won_iff_five_books[OF h]
  from t have 1: "True \<longleftrightarrow> length [''a'', ''b'', ''c'', ''d'', ''red''] = 5"
    by (rule conjunct1)
  from t di have 2: "True \<longleftrightarrow> card (set [''a'', ''b'', ''c'', ''d'', ''red'']) = 5"
    by (elim conjE impE)
  show ?thesis by (intro conjI h 1 di 2)
qed

section \<open>Accepted moves\<close>

text \<open>On a rectangular grid a move whose stepped cells all pass is accepted.\<close>

lemma validate_move_clear:
  assumes "mazes mid = Some maze" and "direction_map dir = Some d"
      and "rectangular (grid maze)" and "path_clear maze ks pos d (nat n)"
  shows "validate_move mazes mid pos dir n ks bs =
     (let final_pos = (case portals maze (cell_after pos d (nat n)) of
                         Some dest \<Rightarrow> dest | None \<Rightarrow> cell_after pos d (nat n));
          new_keys = pick_keys (keys maze) final_pos ks;
          new_books = pick_books (books maze) final_pos new_keys (books_or_empty bs)
      in Inr (Valid final_pos new_keys new_books (length new_books = 5)))"
  unfolding validate_move_unfold[of mazes mid maze dir d, OF assms(1,2)]
    step_loop_clear[OF assms(3,4)]
  by simp

text \<open>
  Claim C9. The core does not enforce positive \<open>steps\<close>: with \<open>steps \<le> 0\<close> the loop
  body never runs, the move is accepted for every maze, valid direction and player state,
  and teleport and key/book pickup are applied at the player's current cell. The caller
  passes \<open>steps\<close> on unchecked, so a zero-step submission by a player standing on a
  portal source is answered with the portal's destination as new position, which is
  stored in the session unless the game is won (then the session is deleted).
\<close>

theorem zero_steps_accepted:
  assumes "mazes mid = Some maze" and "direction_map dir = Some d" and "n \<le> 0"
  shows "(\<exists>fp ks' bs' w.
            validate_move mazes mid pos dir n ks bs = Inr (Valid fp ks' bs' w) \<and>
            fp = (case portals maze pos of Some dest \<Rightarrow> dest | None \<Rightarrow> pos) \<and>
            set ks' = set ks \<union> {c. (c, fp) \<in> set (keys maze)} \<and>
            set bs' = set (books_or_empty bs) \<union> {c. (c, fp) \<in> set (books maze) \<and> c \<in> set ks'} \<and>
            w = (length bs' = 5)) \<and>
         (\<forall>gs uid st dest.
            gs (uid, mid) = Some st \<and> position st = pos \<and> portals maze pos = Some dest \<longrightarrow>
            (\<exists>ks' bs' w gs'.
               submit_move mazes gs (Some uid) \<lparr>direction = dir, steps = n, maze_id = mid\<rparr> =
                 (Returned (Valid dest ks' bs' w), gs') \<and>
               gs' (uid, mid) =
                 (if w then None
                  else Some \<lparr>position = dest, collected_keys = ks', collected_books = bs'\<rparr>)))"
proof -
  have n0: "nat n = 0" using assms(3) by simp
  have v: "validate_move mazes mid pos dir n ks' bs' =
     (let final_pos = (case portals maze pos of Some dest \<Rightarrow> dest | None \<Rightarrow> pos);
          new_keys = pick_keys (keys maze) final_pos ks';
          new_books = pick_books (books maze) final_pos new_keys (books_or_empty bs')
      in Inr (Valid final_pos new_keys new_books (length new_books = 5)))" for ks' bs'
    unfolding validate_move_unfold[of mazes mid maze dir d, OF assms(1,2)] n0 by simp
  have first: "\<exists>fp ks' bs' w.
            validate_move mazes mid pos dir n ks bs = Inr (Valid fp ks' bs' w) \<and>
            fp = (case portals maze pos of Some dest \<Rightarrow> dest | None \<Rightarrow> pos) \<and>
            set ks' = set ks \<union> {c. (c, fp) \<in> set (keys maze)} \<and>
            set bs' = set (books_or_empty bs) \<union> {c. (c, fp) \<in> set (books maze) \<and> c \<in> set ks'} \<and>
            w = (length bs' = 5)"
    unfolding v by (simp add: Let_def set_pick_keys set_pick_books)
  have second: "\<exists>ks' bs' w gs'.
               submit_move mazes gs (Some uid) \<lparr>direction = dir, steps = n, maze_id = mid\<rparr> =
                 (Returned (Valid dest ks' bs' w), gs') \<and>
               gs' (uid, mid) =
                 (if w then None
                  else Some \<lparr>position = dest, collected_keys = ks', collected_books = bs'\<rparr>)"
    if "gs (uid, mid) = Some st" "position st = pos" "portals maze pos = Some dest"
    for gs uid st dest
    using that by (simp add: submit_move_def v Let_def)
  from first second show ?thesis by blast
qed

theorem zero_steps_accepted_witness:
  "validate_move MAZES 1 (9, 6) ''up'' 0 [] (Some []) = Inr (Valid (1, 2) [] [] False) \<and>
   submit_move MAZES
       [(42, 1) \<mapsto> \<lparr>position = (9, 6), collected_keys = [], collected_books = []\<rparr>]
       (Some 42) \<lparr>direction = ''up'', steps = 0, maze_id = 1\<rparr> =
     (Returned (Valid (1, 2) [] [] False),
      [(42, 1) \<mapsto> \<lparr>position = (1, 2), collected_keys = [], collected_books = []\<rparr>])"
proof -
  have m: "MAZES 1 = Some MAZE_1" by (simp add: MAZES_def)
  have d: "direction_map ''up'' = Some (-1, 0)" by (simp add: direction_map_def)
  have p: "portals MAZE_1 (9, 6) = Some (1, 2)" by (simp add: MAZE_1_def)
  have k: "keys MAZE_1 = [(''blue'', (1, 8)), (''orange'', (5, 5)), (''green'', (5, 3)),
             (''purple'', (8, 3)), (''red'', (1, 4))]" by (simp add: MAZE_1_def)
  have b: "books MAZE_1 = [(''blue'', (1, 7)), (''orange'', (9, 9)), (''green'', (9, 5)),
              (''purple'', (3, 9)), (''red'', (6, 5))]" by (simp add: MAZE_1_def)
  note z = zero_steps_accepted[where mazes = MAZES and mid = 1 and maze = MAZE_1 and
      dir = "''up''" and d = "(-1, 0)" and n = 0 and pos = "(9, 6)" and ks = "[]" and
      bs = "Some []", OF m d]
  from z have 1: "validate_move MAZES 1 (9, 6) ''up'' 0 [] (Some []) = Inr (Valid (1, 2) [] [] False)"
    by (auto simp: p k b books_or_empty_def)
  from z have 2: "submit_move MAZES
       [(42, 1) \<mapsto> \<lparr>position = (9, 6), collected_keys = [], collected_books = []\<rparr>]
       (Some 42) \<lparr>direction = ''up'', steps = 0, maze_id = 1\<rparr> =
     (Returned (Valid (1, 2) [] [] False),
      [(42, 1) \<mapsto> \<lparr>position = (1, 2), collected_keys = [], collected_books = []\<rparr>])"
    by (simp add: submit_move_def 1)
  from 1 2 show ?thesis by blast
qed

section \<open>Portals\<close>

text \<open>
  Claim C3. The landing cell of a move is the cell reached after all \<open>steps\<close> unit
  steps. If it is a portal source with destination \<open>dest\<close>, then every accepted move ends
  exactly on \<open>dest\<close>: the lookup is made once, so the final position is \<open>dest\<close> even
  when \<open>dest\<close> is itself a portal source. Acceptance does not depend on \<open>dest\<close>: on a
  rectangular grid, a move whose stepped cells all pass is accepted whatever \<open>dest\<close>
  is (a wall, a locked door or a cell outside the grid).
\<close>

theorem portal_single_hop:
  assumes "mazes mid = Some maze" and "direction_map dir = Some d"
      and "portals maze (cell_after pos d (nat n)) = Some dest"
  shows "(\<forall>p ks' bs' w.
            validate_move mazes mid pos dir n ks bs = Inr (Valid p ks' bs' w) \<longrightarrow> p = dest) \<and>
         (rectangular (grid maze) \<and> path_clear maze ks pos d (nat n) \<longrightarrow>
            (\<exists>ks' bs' w. validate_move mazes mid pos dir n ks bs = Inr (Valid dest ks' bs' w)))"
proof (intro conjI allI impI)
  fix p ks' bs' w
  assume a: "validate_move mazes mid pos dir n ks bs = Inr (Valid p ks' bs' w)"
  from a obtain maze' d' landing where
    m: "mazes mid = Some maze'" and d: "direction_map dir = Some d'" and
    l: "step_loop maze' ks d' (nat n) pos = Landed landing" and
    p: "p = (case portals maze' landing of Some dest \<Rightarrow> dest | None \<Rightarrow> landing)" and
    "ks' = pick_keys (keys maze') p ks" and
    "bs' = pick_books (books maze') p ks' (books_or_empty bs)" and "w = (length bs' = 5)"
    by (rule validate_move_ValidD)
  from m d assms(1,2) have e: "maze' = maze" "d' = d" by simp_all
  from step_loop_Landed[OF l] have "landing = cell_after pos d (nat n)" by (simp add: e)
  with p assms(3) show "p = dest" by (simp add: e)
next
  assume "rectangular (grid maze) \<and> path_clear maze ks pos d (nat n)"
  then have r: "rectangular (grid maze)" and c: "path_clear maze ks pos d (nat n)" by simp_all
  show "\<exists>ks' bs' w. validate_move mazes mid pos dir n ks bs = Inr (Valid dest ks' bs' w)"
    unfolding validate_move_clear[of mazes mid maze dir d, OF assms(1,2) r c]
    by (simp add: assms(3) Let_def)
qed

theorem portal_single_hop_witness:
  "portals MAZE_1 (cell_after (1, 1) (0, 1) (nat 1)) = Some (9, 6) \<and>
   portals MAZE_1 (9, 6) = Some (1, 2) \<and>
   validate_move MAZES 1 (1, 1) ''right'' 1 [] (Some []) = Inr (Valid (9, 6) [] [] False) \<and>
   portals EXAMPLE_MAZE (cell_after (1, 1) (0, 1) (nat 3)) = Some (-1, 9) \<and>
   rectangular (grid EXAMPLE_MAZE) \<and> path_clear EXAMPLE_MAZE [] (1, 1) (0, 1) (nat 3) \<and>
   (\<exists>ks' bs' w. validate_move EXAMPLE_MAZES 7 (1, 1) ''right'' 3 [] (Some []) =
      Inr (Valid (-1, 9) ks' bs' w))"
proof -
  have d: "direction_map ''right'' = Some (0, 1)" by (simp add: direction_map_def)
  have m1: "MAZES 1 = Some MAZE_1" by (simp add: MAZES_def)
  have p1: "portals MAZE_1 (cell_after (1, 1) (0, 1) (nat 1)) = Some (9, 6)"
    by (simp add: MAZE_1_def cell_after_def)
  have p1': "portals MAZE_1 (9, 6) = Some (1, 2)" by (simp add: MAZE_1_def)
  have v1: "validate_move MAZES 1 (1, 1) ''right'' 1 [] (Some []) = Inr (Valid (9, 6) [] [] False)"
    by code_simp
  have m2: "EXAMPLE_MAZES 7 = Some EXAMPLE_MAZE" by (simp add: EXAMPLE_MAZES_def)
  have p2: "portals EXAMPLE_MAZE (cell_after (1, 1) (0, 1) (nat 3)) = Some (-1, 9)"
    by (simp add: EXAMPLE_MAZE_def cell_after_def)
  have r2: "rectangular (grid EXAMPLE_MAZE)" by (simp add: rectangular_def EXAMPLE_MAZE_def)
  have c2: "path_clear EXAMPLE_MAZE [] (1, 1) (0, 1) (nat 3)"
    by (simp add: path_clear_def EXAMPLE_MAZE_def blocked_def locked_def cell_after_def upt_rec)
  note t1 = portal_single_hop[where mazes = MAZES and mid = 1 and maze = MAZE_1 and
      dir = "''right''" and d = "(0, 1)" and pos = "(1, 1)" and n = 1 and dest = "(9, 6)" and
      ks = "[]" and bs = "Some []", OF m1 d p1]
  note t2 = portal_single_hop[where mazes = EXAMPLE_MAZES and mid = 7 and maze = EXAMPLE_MAZE and
      dir = "''right''" and d = "(0, 1)" and pos = "(1, 1)" and n = 3 and dest = "(-1, 9)" and
      ks = "[]" and bs = "Some []", OF m2 d p2]
  from t1 v1 have "(9, 6) = ((9, 6) :: position)" by blast
  from t2 r2 c2 have "\<exists>ks' bs' w. validate_move EXAMPLE_MAZES 7 (1, 1) ''right'' 3 [] (Some []) =
      Inr (Valid (-1, 9) ks' bs' w)" by blast
  with p1 p1' v1 p2 r2 c2 show ?thesis by blast
qed

text \<open>
  Claim C10. Locked doors are checked only on the cells stepped through, before the
  teleport. On a rectangular grid, if all stepped cells pass the wall and door checks and
  the landing cell is a portal source whose destination carries a door of a colour that
  is not among the keys held, the move is accepted and the new position is that locked
  door's cell.
\<close>

theorem portal_onto_locked_door:
  assumes "mazes mid = Some maze" and "direction_map dir = Some d"
      and "rectangular (grid maze)" and "path_clear maze ks pos d (nat n)"
      and "portals maze (cell_after pos d (nat n)) = Some dest"
      and "(color, dest) \<in> set (doors maze)" and "color \<notin> set ks"
  shows "locked maze ks dest \<and>
         (\<exists>ks' bs' w. validate_move mazes mid pos dir n ks bs = Inr (Valid dest ks' bs' w))"
proof
  from assms(6,7) show "locked maze ks dest"
    by (auto simp: locked_def list_ex_iff)
  show "\<exists>ks' bs' w. validate_move mazes mid pos dir n ks bs = Inr (Valid dest ks' bs' w)"
    unfolding validate_move_clear[of mazes mid maze dir d, OF assms(1-4)]
    by (simp add: assms(5) Let_def)
qed

theorem portal_onto_locked_door_witness:
  "rectangular (grid EXAMPLE_MAZE) \<and> path_clear EXAMPLE_MAZE [] (1, 1) (0, 1) (nat 2) \<and>
   portals EXAMPLE_MAZE (cell_after (1, 1) (0, 1) (nat 2)) = Some (1, 5) \<and>
   (''blue'', (1, 5)) \<in> set (doors EXAMPLE_MAZE) \<and> ''blue'' \<notin> set [] \<and>
   locked EXAMPLE_MAZE [] (1, 5) \<and>
   validate_move EXAMPLE_MAZES 7 (1, 1) ''right'' 2 [] (Some []) = Inr (Valid (1, 5) [] [] False)"
proof -
  have d: "direction_map ''right'' = Some (0, 1)" by (simp add: direction_map_def)
  have m: "EXAMPLE_MAZES 7 = Some EXAMPLE_MAZE" by (simp add: EXAMPLE_MAZES_def)
  have p: "portals EXAMPLE_MAZE (cell_after (1, 1) (0, 1) (nat 2)) = Some (1, 5)"
    by (simp add: EXAMPLE_MAZE_def cell_after_def)
  have r: "rectangular (grid EXAMPLE_MAZE)" by (simp add: rectangular_def EXAMPLE_MAZE_def)
  have c: "path_clear EXAMPLE_MAZE [] (1, 1) (0, 1) (nat 2)"
    by (simp add: path_clear_def EXAMPLE_MAZE_def blocked_def locked_def cell_after_def upt_rec)
  have dr: "(''blue'', (1, 5)) \<in> set (doors EXAMPLE_MAZE)" by (simp add: EXAMPLE_MAZE_def)
  have nk: "''blue'' \<notin> set []" by simp
  have v: "validate_move EXAMPLE_MAZES 7 (1, 1) ''right'' 2 [] (Some []) =
      Inr (Valid (1, 5) [] [] False)"
    by code_simp
  note t = portal_onto_locked_door[where mazes = EXAMPLE_MAZES and mid = 7 and
      maze = EXAMPLE_MAZE and dir = "''right''" and d = "(0, 1)" and pos = "(1, 1)" and n = 2 and
      dest = "(1, 5)" and ks = "[]" and color = "''blue''" and bs = "Some []", OF m d r c p dr nk]
  from t r c p dr nk v show ?thesis by blast
qed

section \<open>Books\<close>

text \<open>
  Claim C4. In every accepted move, the outgoing keys are the incoming keys together
  with every colour whose key lies on the final cell, and a colour \<open>c\<close> is newly added
  to the books exactly when the final cell is \<open>c\<close>'s book position, \<open>c\<close> is among
  the outgoing keys (those after the key pickup of the same call) and \<open>c\<close> is not among
  the incoming books. So a key lying on the same final cell as its book unlocks the book
  in the same call. No incoming book is dropped.
\<close>

theorem book_pickup_iff:
  assumes "mazes mid = Some maze"
      and "validate_move mazes mid pos dir n ks bs = Inr (Valid p ks' bs' w)"
  shows "set ks' = set ks \<union> {c. (c, p) \<in> set (keys maze)} \<and>
         (\<forall>c. (c \<in> set bs' \<and> c \<notin> set (books_or_empty bs)) \<longleftrightarrow>
              ((c, p) \<in> set (books maze) \<and> c \<in> set ks' \<and> c \<notin> set (books_or_empty bs))) \<and>
         (\<forall>c. (c, p) \<in> set (keys maze) \<and> (c, p) \<in> set (books maze) \<longrightarrow> c \<in> set bs') \<and>
         set (books_or_empty bs) \<subseteq> set bs'"
proof -
  from assms(2) obtain maze' d landing where
    m: "mazes mid = Some maze'" and "direction_map dir = Some d" and
    "step_loop maze' ks d (nat n) pos = Landed landing" and
    "p = (case portals maze' landing of Some dest \<Rightarrow> dest | None \<Rightarrow> landing)" and
    k: "ks' = pick_keys (keys maze') p ks" and
    b: "bs' = pick_books (books maze') p ks' (books_or_empty bs)" and "w = (length bs' = 5)"
    by (rule validate_move_ValidD)
  from m assms(1) have e: "maze' = maze" by simp
  have sk: "set ks' = set ks \<union> {c. (c, p) \<in> set (keys maze)}"
    unfolding k e by (rule set_pick_keys)
  have sb: "set bs' = set (books_or_empty bs) \<union> {c. (c, p) \<in> set (books maze) \<and> c \<in> set ks'}"
    unfolding b e by (rule set_pick_books)
  from sk sb show ?thesis by blast
qed

theorem book_pickup_iff_witness:
  "validate_move EXAMPLE_MAZES 7 (1, 1) ''right'' 1 [] None =
     Inr (Valid (1, 2) [''red''] [''red''] False) \<and>
   (''red'', (1, 2)) \<in> set (keys EXAMPLE_MAZE) \<and> (''red'', (1, 2)) \<in> set (books EXAMPLE_MAZE) \<and>
   ''red'' \<in> set [''red''] \<and> ''red'' \<notin> set (books_or_empty None)"
proof -
  have m: "EXAMPLE_MAZES 7 = Some EXAMPLE_MAZE" by (simp add: EXAMPLE_MAZES_def)
  have v: "validate_move EXAMPLE_MAZES 7 (1, 1) ''right'' 1 [] None =
     Inr (Valid (1, 2) [''red''] [''red''] False)"
    by code_simp
  have k: "(''red'', (1, 2)) \<in> set (keys EXAMPLE_MAZE)" by (simp add: EXAMPLE_MAZE_def)
  have b: "(''red'', (1, 2)) \<in> set (books EXAMPLE_MAZE)" by (simp add: EXAMPLE_MAZE_def)
  have e: "''red'' \<notin> set (books_or_empty None)" by (simp add: books_or_empty_def)
  note t = book_pickup_iff[where mazes = EXAMPLE_MAZES and mid = 7 and maze = EXAMPLE_MAZE and
      pos = "(1, 1)" and dir = "''right''" and n = 1 and ks = "[]" and bs = None and
      p = "(1, 2)" and ks' = "[''red'']" and bs' = "[''red'']" and w = False, OF m v]
  from t k b have "''red'' \<in> set [''red'']" by blast
  with v k b e show ?thesis by blast
qed

section \<open>Rejected moves\<close>

text \<open>On a rectangular grid, a path with a failing cell is rejected at its first failing cell.\<close>

lemma step_loop_rejects:
  "rectangular (grid maze) \<Longrightarrow> \<not> path_clear maze ks p d n \<Longrightarrow>
   \<exists>e. step_loop maze ks d n p = Rejected e \<and>
       (e = ''Hit wall or boundary'' \<or>
        (\<exists>c. c \<in> fst ` set (doors maze) \<and> c \<notin> set ks \<and> e = ''Need '' @ c @ '' key to pass''))"
proof (induction n arbitrary: p)
  case 0
  then show ?case by (simp add: path_clear_def)
next
  case (Suc n)
  note s = step_loop_Suc_rect[OF Suc.prems(1), of ks d n p]
  show ?case
  proof (cases "blocked maze (cell_after p d (Suc 0))")
    case True
    then show ?thesis unfolding s by simp
  next
    case nb: False
    show ?thesis
    proof (cases "locked_door (doors maze) (cell_after p d (Suc 0)) ks")
      case (Some c)
      from locked_door_Some[OF Some] have "c \<in> fst ` set (doors maze)" "c \<notin> set ks"
        by (auto simp: image_iff intro: bexI[of _ "(c, cell_after p d (Suc 0))"])
      with nb Some show ?thesis unfolding s by auto
    next
      case None
      with nb Suc.prems(2) have "\<not> path_clear maze ks (cell_after p d (Suc 0)) d n"
        by (simp add: path_clear_Suc_left locked_iff)
      from Suc.IH[OF Suc.prems(1) this] nb None show ?thesis unfolding s by simp
    qed
  qed
qed

lemma not_path_clearI:
  "1 \<le> k \<Longrightarrow> k \<le> n \<Longrightarrow>
   blocked maze (cell_after p d k) \<or> locked maze ks (cell_after p d k) \<Longrightarrow>
   \<not> path_clear maze ks p d n"
  unfolding path_clear_iff by blast

text \<open>A wall or boundary with no locked door before it gives the wall error.\<close>

lemma step_loop_hits:
  "rectangular (grid maze) \<Longrightarrow> 1 \<le> k \<Longrightarrow> k \<le> n \<Longrightarrow> blocked maze (cell_after p d k) \<Longrightarrow>
   (\<And>j. 1 \<le> j \<Longrightarrow> j < k \<Longrightarrow> \<not> locked maze ks (cell_after p d j)) \<Longrightarrow>
   step_loop maze ks d n p = Rejected ''Hit wall or boundary''"
proof (induction n arbitrary: p k)
  case 0
  then show ?case by simp
next
  case (Suc n)
  note s = step_loop_Suc_rect[OF Suc.prems(1), of ks d n p]
  show ?case
  proof (cases "blocked maze (cell_after p d (Suc 0))")
    case True
    then show ?thesis unfolding s by simp
  next
    case nb: False
    with Suc.prems(2,4) have k2: "2 \<le> k" by (cases "k = 1") auto
    then obtain k' where k': "k = Suc k'" "1 \<le> k'" by (cases k) auto
    from Suc.prems(5)[of "Suc 0"] k2 have "locked_door (doors maze) (cell_after p d (Suc 0)) ks = None"
      by (simp add: locked_iff)
    moreover have "step_loop maze ks d n (cell_after p d (Suc 0)) = Rejected ''Hit wall or boundary''"
    proof (rule Suc.IH[OF Suc.prems(1) k'(2)])
      show "k' \<le> n" using Suc.prems(3) k'(1) by simp
      show "blocked maze (cell_after (cell_after p d (Suc 0)) d k')"
        using Suc.prems(4) by (simp add: cell_after_shift k'(1))
      show "\<not> locked maze ks (cell_after (cell_after p d (Suc 0)) d j)" if "1 \<le> j" "j < k'" for j
        using Suc.prems(5)[of "Suc j"] that by (simp add: cell_after_shift k'(1))
    qed
    ultimately show ?thesis using nb unfolding s by simp
  qed
qed

section \<open>Locked doors\<close>

text \<open>
  Claim C2, as the code has it. The cells along the direction vector are validated in
  order, one per step, until the first one that fails. A locked door on any of the
  \<open>steps\<close> cells of a rectangular grid makes the move rejected. When the loop reaches
  such a cell (every earlier stepped cell passes both checks and the cell itself is an
  open cell of the grid), the error is exactly \<open>Need {color} key to pass\<close> for a colour
  that has its door on that cell and is not among the incoming keys, whether the cell is
  an intermediate one (\<open>k < steps\<close>) or the final one (\<open>k = steps\<close>). In maze 1, from
  \<open>(1, 1)\<close> with no keys, the move right by 6 reaches the blue door at \<open>(1, 7)\<close> and is
  rejected with \<open>Need blue key to pass\<close>; the session keeps position \<open>(1, 1)\<close>.
\<close>

theorem locked_door_rejects:
  "(\<forall>mazes mid maze dir d pos n ks bs k.
      mazes mid = Some maze \<and> direction_map dir = Some d \<and> rectangular (grid maze) \<and>
      1 \<le> k \<and> k \<le> nat n \<and> locked maze ks (cell_after pos d k) \<longrightarrow>
      (\<exists>e. validate_move mazes mid pos dir n ks bs = Inr (Invalid e)) \<and>
      (path_clear maze ks pos d (k - 1) \<and> \<not> blocked maze (cell_after pos d k) \<longrightarrow>
         (\<exists>color. (color, cell_after pos d k) \<in> set (doors maze) \<and> color \<notin> set ks \<and>
            validate_move mazes mid pos dir n ks bs =
              Inr (Invalid (''Need '' @ color @ '' key to pass''))))) \<and>
   cell_after (1, 1) (0, 1) 6 = (1, 7) \<and> (''blue'', (1, 7)) \<in> set (doors MAZE_1) \<and>
   validate_move MAZES 1 (1, 1) ''right'' 6 [] (Some []) =
     Inr (Invalid ''Need blue key to pass'') \<and>
   (\<forall>uid. submit_move MAZES Map.empty (Some uid)
            \<lparr>direction = ''right'', steps = 6, maze_id = 1\<rparr> =
          (Returned (Invalid ''Need blue key to pass''),
           [(uid, 1) \<mapsto> \<lparr>position = (1, 1), collected_keys = [], collected_books = []\<rparr>]))"
proof -
  have general:
    "(\<exists>e. validate_move mazes mid pos dir n ks bs = Inr (Invalid e)) \<and>
      (path_clear maze ks pos d (k - 1) \<and> \<not> blocked maze (cell_after pos d k) \<longrightarrow>
         (\<exists>color. (color, cell_after pos d k) \<in> set (doors maze) \<and> color \<notin> set ks \<and>
            validate_move mazes mid pos dir n ks bs =
              Inr (Invalid (''Need '' @ color @ '' key to pass''))))"
    if m: "mazes mid = Some maze" and d: "direction_map dir = Some d"
      and r: "rectangular (grid maze)" and k: "1 \<le> k" "k \<le> nat n"
      and l: "locked maze ks (cell_after pos d k)"
    for mazes mid maze dir d pos n ks bs k
  proof
    have "\<not> path_clear maze ks pos d (nat n)"
      using k l by (intro not_path_clearI[of k]) auto
    from step_loop_rejects[OF r this] obtain e where
      "step_loop maze ks d (nat n) pos = Rejected e" by blast
    then show "\<exists>e. validate_move mazes mid pos dir n ks bs = Inr (Invalid e)"
      unfolding validate_move_unfold[of mazes mid maze dir d, OF m d] by simp
  next
    show "path_clear maze ks pos d (k - 1) \<and> \<not> blocked maze (cell_after pos d k) \<longrightarrow>
         (\<exists>color. (color, cell_after pos d k) \<in> set (doors maze) \<and> color \<notin> set ks \<and>
            validate_move mazes mid pos dir n ks bs =
              Inr (Invalid (''Need '' @ color @ '' key to pass'')))"
    proof
      assume a: "path_clear maze ks pos d (k - 1) \<and> \<not> blocked maze (cell_after pos d k)"
      from k have sk: "Suc (k - 1) = k" and lt: "k - 1 < nat n" by simp_all
      from l obtain c where c: "locked_door (doors maze) (cell_after pos d k) ks = Some c"
        by (auto simp: locked_iff)
      from a have pc: "path_clear maze ks pos d (k - 1)"
        and nb: "\<not> blocked maze (cell_after pos d k)" by simp_all
      note ff = step_loop_first_fail[OF r pc lt, unfolded sk]
      have "step_loop maze ks d (nat n) pos = Rejected (''Need '' @ c @ '' key to pass'')"
        unfolding ff using nb c by simp
      then have "validate_move mazes mid pos dir n ks bs =
              Inr (Invalid (''Need '' @ c @ '' key to pass''))"
        unfolding validate_move_unfold[of mazes mid maze dir d, OF m d] by simp
      with locked_door_Some[OF c] show "\<exists>color. (color, cell_after pos d k) \<in> set (doors maze) \<and>
          color \<notin> set ks \<and> validate_move mazes mid pos dir n ks bs =
              Inr (Invalid (''Need '' @ color @ '' key to pass''))"
        by blast
    qed
  qed
  have c: "cell_after (1, 1) (0, 1) 6 = (1, 7)" by (simp add: cell_after_def)
  have b: "(''blue'', (1, 7)) \<in> set (doors MAZE_1)" by (simp add: MAZE_1_def)
  have v: "validate_move MAZES 1 (1, 1) ''right'' 6 [] (Some []) =
     Inr (Invalid ''Need blue key to pass'')"
    by code_simp
  have s: "submit_move MAZES Map.empty (Some uid)
            \<lparr>direction = ''right'', steps = 6, maze_id = 1\<rparr> =
          (Returned (Invalid ''Need blue key to pass''),
           [(uid, 1) \<mapsto> \<lparr>position = (1, 1), collected_keys = [], collected_books = []\<rparr>])" for uid
  proof -
    have m: "MAZES 1 = Some MAZE_1" by (simp add: MAZES_def)
    have st: "start_pos MAZE_1 = (1, 1)" by (simp add: MAZE_1_def)
    show ?thesis by (simp add: submit_move_def m st v)
  qed
  from general c b v s show ?thesis by blast
qed
theorem locked_door_rejects_witness:
  "MAZES 1 = Some MAZE_1 \<and> direction_map ''right'' = Some (0, 1) \<and>
   rectangular (grid MAZE_1) \<and> (1::nat) \<le> 6 \<and> (6::nat) \<le> nat 9 \<and>
   locked MAZE_1 [] (cell_after (1, 1) (0, 1) 6) \<and>
   path_clear MAZE_1 [] (1, 1) (0, 1) (6 - 1) \<and>
   \<not> blocked MAZE_1 (cell_after (1, 1) (0, 1) 6) \<and>
   (\<exists>color. (color, cell_after (1, 1) (0, 1) 6) \<in> set (doors MAZE_1) \<and> color \<notin> set [] \<and>
      validate_move MAZES 1 (1, 1) ''right'' 9 [] (Some []) =
        Inr (Invalid (''Need '' @ color @ '' key to pass'')))"
proof -
  have m: "MAZES 1 = Some MAZE_1" by (simp add: MAZES_def)
  have d: "direction_map ''right'' = Some (0, 1)" by (simp add: direction_map_def)
  have r: "rectangular (grid MAZE_1)" by (simp add: rectangular_def MAZE_1_def)
  have k1: "(1::nat) \<le> 6" by simp
  have k2: "(6::nat) \<le> nat 9" by simp
  have l: "locked MAZE_1 [] (cell_after (1, 1) (0, 1) 6)" by code_simp
  have p: "path_clear MAZE_1 [] (1, 1) (0, 1) (6 - 1)" by code_simp
  have b: "\<not> blocked MAZE_1 (cell_after (1, 1) (0, 1) 6)" by code_simp
  note g = locked_door_rejects[THEN conjunct1, rule_format,
      where mazes = MAZES and mid = 1 and maze = MAZE_1 and dir = "''right''" and d = "(0, 1)" and
        pos = "(1, 1)" and n = 9 and ks = "[]" and bs = "Some []" and k = 6]
  have h: "MAZES 1 = Some MAZE_1 \<and> direction_map ''right'' = Some (0, 1) \<and>
      rectangular (grid MAZE_1) \<and> (1::nat) \<le> 6 \<and> 6 \<le> nat 9 \<and>
      locked MAZE_1 [] (cell_after (1, 1) (0, 1) 6)"
    by (intro conjI m d r k1 k2 l)
  have pb: "path_clear MAZE_1 [] (1, 1) (0, 1) (6 - 1) \<and>
      \<not> blocked MAZE_1 (cell_after (1, 1) (0, 1) 6)"
    by (intro conjI p b)
  have e: "\<exists>color. (color, cell_after (1, 1) (0, 1) 6) \<in> set (doors MAZE_1) \<and> color \<notin> set [] \<and>
      validate_move MAZES 1 (1, 1) ''right'' 9 [] (Some []) =
        Inr (Invalid (''Need '' @ color @ '' key to pass''))"
    by (rule g[THEN conjunct2, rule_format, OF h pb])
  show ?thesis by (intro conjI m d r k1 k2 l p b e)
qed

text \<open>
  Without the condition that the loop reaches the door, the claim fails: in maze 1 the
  player gets to \<open>(3, 5)\<close> by moving down 2 and right 4. From there, right by 4 has the
  locked purple door at \<open>(3, 9)\<close> as its final cell, but the wall at \<open>(3, 8)\<close> is met
  first and the error is \<open>Hit wall or boundary\<close>.
\<close>

theorem locked_door_behind_wall_counterexample:
  "cell_after (3, 5) (0, 1) 4 = (3, 9) \<and> (''purple'', (3, 9)) \<in> set (doors MAZE_1) \<and>
   ''purple'' \<notin> set [] \<and> grid MAZE_1 ! 3 ! 8 = ''#'' \<and>
   validate_move MAZES 1 (3, 5) ''right'' 4 [] (Some []) =
     Inr (Invalid ''Hit wall or boundary'') \<and>
   validate_move MAZES 1 (3, 5) ''right'' 4 [] (Some []) \<noteq>
     Inr (Invalid ''Need purple key to pass'') \<and>
   submit_moves MAZES Map.empty (Some 42)
     [\<lparr>direction = ''down'', steps = 2, maze_id = 1\<rparr>,
      \<lparr>direction = ''right'', steps = 4, maze_id = 1\<rparr>,
      \<lparr>direction = ''right'', steps = 4, maze_id = 1\<rparr>] =
     ([Returned (Valid (3, 1) [] [] False),
       Returned (Valid (3, 5) [] [] False),
       Returned (Invalid ''Hit wall or boundary'')],
      [(42, 1) \<mapsto> \<lparr>position = (3, 5), collected_keys = [], collected_books = []\<rparr>])"
proof -
  have c: "cell_after (3, 5) (0, 1) 4 = (3, 9)" by (simp add: cell_after_def)
  have p: "(''purple'', (3, 9)) \<in> set (doors MAZE_1)" by (simp add: MAZE_1_def)
  have nk: "''purple'' \<notin> set []" by simp
  have g: "grid MAZE_1 ! 3 ! 8 = ''#''" by (simp add: MAZE_1_def)
  have v1: "validate_move MAZES 1 (1, 1) ''down'' 2 [] (Some []) =
     Inr (Valid (3, 1) [] [] False)" by code_simp
  have v2: "validate_move MAZES 1 (3, 1) ''right'' 4 [] (Some []) =
     Inr (Valid (3, 5) [] [] False)" by code_simp
  have v3: "validate_move MAZES 1 (3, 5) ''right'' 4 [] (Some []) =
     Inr (Invalid ''Hit wall or boundary'')" by code_simp
  have n: "validate_move MAZES 1 (3, 5) ''right'' 4 [] (Some []) \<noteq>
     Inr (Invalid ''Need purple key to pass'')" unfolding v3 by simp
  have m: "MAZES 1 = Some MAZE_1" by (simp add: MAZES_def)
  have st: "start_pos MAZE_1 = (1, 1)" by (simp add: MAZE_1_def)
  have s: "submit_moves MAZES Map.empty (Some 42)
     [\<lparr>direction = ''down'', steps = 2, maze_id = 1\<rparr>,
      \<lparr>direction = ''right'', steps = 4, maze_id = 1\<rparr>,
      \<lparr>direction = ''right'', steps = 4, maze_id = 1\<rparr>] =
     ([Returned (Valid (3, 1) [] [] False),
       Returned (Valid (3, 5) [] [] False),
       Returned (Invalid ''Hit wall or boundary'')],
      [(42, 1) \<mapsto> \<lparr>position = (3, 5), collected_keys = [], collected_books = []\<rparr>])"
    by (simp add: submit_move_def m st v1 v2 v3)
  show ?thesis by (intro conjI c p nk g v3 n s)
qed

section \<open>The maze 1 scenario\<close>

text \<open>
  Claim C6, as the code has it. In maze 1, from \<open>(1, 1)\<close> with no keys and no books, the
  move right by 3 is accepted, lands on \<open>(1, 4)\<close> and collects the red key. The move down
  by 4 that follows is rejected with \<open>Hit wall or boundary\<close>, because \<open>(2, 4)\<close> is a wall,
  and leaves the state as it was. The move left by 1 is then accepted, and the sequence
  ends on \<open>(1, 3)\<close> with the red key held and no book.
\<close>

theorem maze1_sequence:
  "validate_move MAZES 1 (1, 1) ''right'' 3 [] (Some []) =
     Inr (Valid (1, 4) [''red''] [] False) \<and>
   grid MAZE_1 ! 2 ! 4 = ''#'' \<and>
   validate_move MAZES 1 (1, 4) ''down'' 4 [''red''] (Some []) =
     Inr (Invalid ''Hit wall or boundary'') \<and>
   validate_move MAZES 1 (1, 4) ''left'' 1 [''red''] (Some []) =
     Inr (Valid (1, 3) [''red''] [] False) \<and>
   submit_moves MAZES Map.empty (Some 42)
     [\<lparr>direction = ''right'', steps = 3, maze_id = 1\<rparr>,
      \<lparr>direction = ''down'', steps = 4, maze_id = 1\<rparr>,
      \<lparr>direction = ''left'', steps = 1, maze_id = 1\<rparr>] =
     ([Returned (Valid (1, 4) [''red''] [] False),
       Returned (Invalid ''Hit wall or boundary''),
       Returned (Valid (1, 3) [''red''] [] False)],
      [(42, 1) \<mapsto> \<lparr>position = (1, 3), collected_keys = [''red''], collected_books = []\<rparr>])"
proof -
  have v1: "validate_move MAZES 1 (1, 1) ''right'' 3 [] (Some []) =
     Inr (Valid (1, 4) [''red''] [] False)" by code_simp
  have g: "grid MAZE_1 ! 2 ! 4 = ''#''" by (simp add: MAZE_1_def)
  have v2: "validate_move MAZES 1 (1, 4) ''down'' 4 [''red''] (Some []) =
     Inr (Invalid ''Hit wall or boundary'')" by code_simp
  have v3: "validate_move MAZES 1 (1, 4) ''left'' 1 [''red''] (Some []) =
     Inr (Valid (1, 3) [''red''] [] False)" by code_simp
  have m: "MAZES 1 = Some MAZE_1" by (simp add: MAZES_def)
  have st: "start_pos MAZE_1 = (1, 1)" by (simp add: MAZE_1_def)
  have s: "submit_moves MAZES Map.empty (Some 42)
     [\<lparr>direction = ''right'', steps = 3, maze_id = 1\<rparr>,
      \<lparr>direction = ''down'', steps = 4, maze_id = 1\<rparr>,
      \<lparr>direction = ''left'', steps = 1, maze_id = 1\<rparr>] =
     ([Returned (Valid (1, 4) [''red''] [] False),
       Returned (Invalid ''Hit wall or boundary''),
       Returned (Valid (1, 3) [''red''] [] False)],
      [(42, 1) \<mapsto> \<lparr>position = (1, 3), collected_keys = [''red''], collected_books = []\<rparr>])"
    by (simp add: submit_move_def m st v1 v2 v3)
  show ?thesis by (intro conjI v1 g v2 v3 s)
qed

text \<open>
  The sequence as the specification describes it (all three moves accepted, ending on
  \<open>(6, 5)\<close>) does not happen: the second response is a rejection and the final position
  is not \<open>(6, 5)\<close>.
\<close>

theorem maze1_sequence_counterexample:
  "fst (submit_moves MAZES Map.empty (Some 42)
     [\<lparr>direction = ''right'', steps = 3, maze_id = 1\<rparr>,
      \<lparr>direction = ''down'', steps = 4, maze_id = 1\<rparr>,
      \<lparr>direction = ''left'', steps = 1, maze_id = 1\<rparr>]) ! 1 =
     Returned (Invalid ''Hit wall or boundary'') \<and>
   map_option position (snd (submit_moves MAZES Map.empty (Some 42)
     [\<lparr>direction = ''right'', steps = 3, maze_id = 1\<rparr>,
      \<lparr>direction = ''down'', steps = 4, maze_id = 1\<rparr>,
      \<lparr>direction = ''left'', steps = 1, maze_id = 1\<rparr>]) (42, 1)) \<noteq> Some (6, 5)"
proof -
  have v1: "validate_move MAZES 1 (1, 1) ''right'' 3 [] (Some []) =
     Inr (Valid (1, 4) [''red''] [] False)" by code_simp
  have v2: "validate_move MAZES 1 (1, 4) ''down'' 4 [''red''] (Some []) =
     Inr (Invalid ''Hit wall or boundary'')" by code_simp
  have v3: "validate_move MAZES 1 (1, 4) ''left'' 1 [''red''] (Some []) =
     Inr (Valid (1, 3) [''red''] [] False)" by code_simp
  have m: "MAZES 1 = Some MAZE_1" by (simp add: MAZES_def)
  have st: "start_pos MAZE_1 = (1, 1)" by (simp add: MAZE_1_def)
  show ?thesis by (simp add: submit_move_def m st v1 v2 v3)
qed

section \<open>Rejection leaves the player state alone\<close>

text \<open>
  Claim C1, as the code has it. Grids are rectangular, as the data model says. If any
  of the \<open>steps\<close> stepped cells is a wall, lies outside the grid or carries a locked
  door, then there is a first such step \<open>k0\<close>, and \<open>validate_move\<close> returns a rejection,
  which carries an error message and no state. The message is that of the first failing
  step: \<open>Hit wall or boundary\<close> when its cell is a wall or outside the grid, and
  otherwise \<open>Need {color} key to pass\<close> for a colour that has its door on that very cell
  and is not among the keys held. No partial movement is applied: \<open>submit_move\<close> answers
  with that rejection and leaves the session's position, keys and books exactly as they
  were (on a first request the session it has just created, at the start position with
  nothing collected). So a move whose stepped cells leave the grid is never clamped, and
  its error is \<open>Hit wall or boundary\<close> when no stepped cell before the blocked one
  carries a locked door.
\<close>

theorem rejected_move_leaves_state:
  assumes "mazes mid = Some maze" and "direction_map dir = Some d"
      and "rectangular (grid maze)" and "1 \<le> k" and "k \<le> nat n"
      and "blocked maze (cell_after pos d k) \<or> locked maze ks (cell_after pos d k)"
  shows "\<exists>k0 e.
           1 \<le> k0 \<and> k0 \<le> k \<and> path_clear maze ks pos d (k0 - 1) \<and>
           (blocked maze (cell_after pos d k0) \<or> locked maze ks (cell_after pos d k0)) \<and>
           validate_move mazes mid pos dir n ks bs = Inr (Invalid e) \<and>
           (if blocked maze (cell_after pos d k0) then e = ''Hit wall or boundary''
            else (\<exists>c. (c, cell_after pos d k0) \<in> set (doors maze) \<and> c \<notin> set ks \<and>
                      e = ''Need '' @ c @ '' key to pass'')) \<and>
           (blocked maze (cell_after pos d k) \<and>
            (\<forall>j. 1 \<le> j \<and> j < k \<longrightarrow> \<not> locked maze ks (cell_after pos d j)) \<longrightarrow>
              e = ''Hit wall or boundary'') \<and>
           (\<forall>gs uid st.
              gs (uid, mid) = Some st \<and> position st = pos \<and> collected_keys st = ks \<and>
              bs = Some (collected_books st) \<longrightarrow>
              submit_move mazes gs (Some uid) \<lparr>direction = dir, steps = n, maze_id = mid\<rparr> =
                (Returned (Invalid e), gs)) \<and>
           (\<forall>gs uid.
              gs (uid, mid) = None \<and> pos = start_pos maze \<and> ks = [] \<and> bs = Some [] \<longrightarrow>
              submit_move mazes gs (Some uid) \<lparr>direction = dir, steps = n, maze_id = mid\<rparr> =
                (Returned (Invalid e),
                 gs((uid, mid) \<mapsto> \<lparr>position = start_pos maze, collected_keys = [],
                                       collected_books = []\<rparr>)))"
proof -
  define fails where
    "fails j \<longleftrightarrow> 1 \<le> j \<and> (blocked maze (cell_after pos d j) \<or> locked maze ks (cell_after pos d j))"
    for j
  define k0 where "k0 = (LEAST j. fails j)"
  have fk: "fails k" using assms(4,6) by (simp add: fails_def)
  then have f0: "fails k0" unfolding k0_def by (rule LeastI)
  from fk have le: "k0 \<le> k" unfolding k0_def by (rule Least_le)
  have least: "\<not> fails j" if "j < k0" for j
    using that unfolding k0_def by (rule not_less_Least)
  from f0 have k01: "1 \<le> k0"
    and fail0: "blocked maze (cell_after pos d k0) \<or> locked maze ks (cell_after pos d k0)"
    by (simp_all add: fails_def)
  have pc: "path_clear maze ks pos d (k0 - 1)"
    unfolding path_clear_iff
  proof (intro allI impI)
    fix j assume j: "1 \<le> j \<and> j \<le> k0 - 1"
    then have j1: "1 \<le> j" by simp
    from j k01 have "j < k0" by arith
    with j1 least[of j] show "\<not> blocked maze (cell_after pos d j) \<and> \<not> locked maze ks (cell_after pos d j)"
      by (simp add: fails_def)
  qed
  from k01 have sk: "Suc (k0 - 1) = k0" by simp
  from k01 le assms(5) have lt: "k0 - 1 < nat n" by simp
  note ff = step_loop_first_fail[OF assms(3) pc lt, unfolded sk]
  obtain e where e: "step_loop maze ks d (nat n) pos = Rejected e"
    and kind: "if blocked maze (cell_after pos d k0) then e = ''Hit wall or boundary''
            else (\<exists>c. (c, cell_after pos d k0) \<in> set (doors maze) \<and> c \<notin> set ks \<and>
                      e = ''Need '' @ c @ '' key to pass'')"
  proof (cases "blocked maze (cell_after pos d k0)")
    case True
    then have "step_loop maze ks d (nat n) pos = Rejected ''Hit wall or boundary''"
      unfolding ff by simp
    with True that show thesis by simp
  next
    case False
    with fail0 obtain c where c: "locked_door (doors maze) (cell_after pos d k0) ks = Some c"
      by (auto simp: locked_iff)
    with False have "step_loop maze ks d (nat n) pos = Rejected (''Need '' @ c @ '' key to pass'')"
      unfolding ff by simp
    moreover from locked_door_Some[OF c] have
      "\<exists>c'. (c', cell_after pos d k0) \<in> set (doors maze) \<and> c' \<notin> set ks \<and>
            ''Need '' @ c @ '' key to pass'' = ''Need '' @ c' @ '' key to pass''" by blast
    ultimately show thesis using False that by simp
  qed
  have v: "validate_move mazes mid pos dir n ks bs = Inr (Invalid e)"
    unfolding validate_move_unfold[of mazes mid maze dir d, OF assms(1,2)] e by simp
  have hit: "e = ''Hit wall or boundary''"
    if "blocked maze (cell_after pos d k)"
      "\<forall>j. 1 \<le> j \<and> j < k \<longrightarrow> \<not> locked maze ks (cell_after pos d j)"
  proof -
    have "step_loop maze ks d (nat n) pos = Rejected ''Hit wall or boundary''"
      using assms(3,4,5) that(1)
    proof (rule step_loop_hits)
      fix j assume "1 \<le> j" "j < k"
      with that(2) show "\<not> locked maze ks (cell_after pos d j)" by simp
    qed
    with e show ?thesis by simp
  qed
  have old: "submit_move mazes gs (Some uid) \<lparr>direction = dir, steps = n, maze_id = mid\<rparr> =
                (Returned (Invalid e), gs)"
    if "gs (uid, mid) = Some st" "position st = pos" "collected_keys st = ks"
      "bs = Some (collected_books st)" for gs uid st
  proof -
    have "gs((uid, mid) \<mapsto> st) = gs" using that(1) by (rule map_upd_triv)
    with that v show ?thesis by (simp add: submit_move_def Let_def)
  qed
  have new: "submit_move mazes gs (Some uid) \<lparr>direction = dir, steps = n, maze_id = mid\<rparr> =
                (Returned (Invalid e),
                 gs((uid, mid) \<mapsto> \<lparr>position = start_pos maze, collected_keys = [],
                                       collected_books = []\<rparr>))"
    if "gs (uid, mid) = None" "pos = start_pos maze" "ks = []" "bs = Some []" for gs uid
    using that v assms(1) by (simp add: submit_move_def Let_def)
  show ?thesis
  proof (intro exI[of _ k0] exI[of _ e] conjI)
    show "1 \<le> k0" by (rule k01)
    show "k0 \<le> k" by (rule le)
    show "path_clear maze ks pos d (k0 - 1)" by (rule pc)
    show "blocked maze (cell_after pos d k0) \<or> locked maze ks (cell_after pos d k0)" by (rule fail0)
    show "validate_move mazes mid pos dir n ks bs = Inr (Invalid e)" by (rule v)
    show "if blocked maze (cell_after pos d k0) then e = ''Hit wall or boundary''
            else (\<exists>c. (c, cell_after pos d k0) \<in> set (doors maze) \<and> c \<notin> set ks \<and>
                      e = ''Need '' @ c @ '' key to pass'')" by (rule kind)
    show "blocked maze (cell_after pos d k) \<and>
            (\<forall>j. 1 \<le> j \<and> j < k \<longrightarrow> \<not> locked maze ks (cell_after pos d j)) \<longrightarrow>
              e = ''Hit wall or boundary''" using hit by blast
    show "\<forall>gs uid st.
              gs (uid, mid) = Some st \<and> position st = pos \<and> collected_keys st = ks \<and>
              bs = Some (collected_books st) \<longrightarrow>
              submit_move mazes gs (Some uid) \<lparr>direction = dir, steps = n, maze_id = mid\<rparr> =
                (Returned (Invalid e), gs)" using old by blast
    show "\<forall>gs uid.
              gs (uid, mid) = None \<and> pos = start_pos maze \<and> ks = [] \<and> bs = Some [] \<longrightarrow>
              submit_move mazes gs (Some uid) \<lparr>direction = dir, steps = n, maze_id = mid\<rparr> =
                (Returned (Invalid e),
                 gs((uid, mid) \<mapsto> \<lparr>position = start_pos maze, collected_keys = [],
                                       collected_books = []\<rparr>))" using new by blast
  qed
qed

text \<open>
  The theorem at the input of the counterexample below: from the start of maze 1 with no
  keys, right by 11. The tenth stepped cell is outside the grid; the first failing step
  is the sixth, on the blue door at \<open>(1, 7)\<close>, and the only colour with a door on that
  cell is blue, so the theorem gives \<open>Need blue key to pass\<close> and an unchanged session.
\<close>

theorem rejected_move_leaves_state_witness:
  "MAZES 1 = Some MAZE_1 \<and> direction_map ''right'' = Some (0, 1) \<and>
   rectangular (grid MAZE_1) \<and> (1::nat) \<le> 10 \<and> (10::nat) \<le> nat 11 \<and>
   blocked MAZE_1 (cell_after (1, 1) (0, 1) 10) \<and>
   validate_move MAZES 1 (1, 1) ''right'' 11 [] (Some []) = Inr (Invalid ''Need blue key to pass'') \<and>
   submit_move MAZES
       [(42, 1) \<mapsto> \<lparr>position = (1, 1), collected_keys = [], collected_books = []\<rparr>]
       (Some 42) \<lparr>direction = ''right'', steps = 11, maze_id = 1\<rparr> =
     (Returned (Invalid ''Need blue key to pass''),
      [(42, 1) \<mapsto> \<lparr>position = (1, 1), collected_keys = [], collected_books = []\<rparr>]) \<and>
   submit_move MAZES Map.empty
       (Some 42) \<lparr>direction = ''right'', steps = 11, maze_id = 1\<rparr> =
     (Returned (Invalid ''Need blue key to pass''),
      [(42, 1) \<mapsto> \<lparr>position = start_pos MAZE_1, collected_keys = [], collected_books = []\<rparr>])"
proof -
  have m: "MAZES 1 = Some MAZE_1" by (simp add: MAZES_def)
  have d: "direction_map ''right'' = Some (0, 1)" by (simp add: direction_map_def)
  have r: "rectangular (grid MAZE_1)" by (simp add: rectangular_def MAZE_1_def)
  have k1: "(1::nat) \<le> 10" by simp
  have k2: "(10::nat) \<le> nat 11" by simp
  have b: "blocked MAZE_1 (cell_after (1, 1) (0, 1) 10)" by code_simp
  have st: "start_pos MAZE_1 = (1, 1)" by (simp add: MAZE_1_def)
  have clear5: "path_clear MAZE_1 [] (1, 1) (0, 1) 5" by code_simp
  have open6: "\<not> blocked MAZE_1 (cell_after (1, 1) (0, 1) 6)" by code_simp
  have lock6: "locked MAZE_1 [] (cell_after (1, 1) (0, 1) 6)" by code_simp
  have c6: "cell_after (1, 1) (0, 1) 6 = (1, 7)" by (simp add: cell_after_def)
  have only_blue: "c = ''blue''" if "(c, (1, 7)) \<in> set (doors MAZE_1)" for c
    using that by (simp add: MAZE_1_def)
  from rejected_move_leaves_state[where mazes = MAZES and mid = 1 and maze = MAZE_1 and
      dir = "''right''" and d = "(0, 1)" and pos = "(1, 1)" and n = 11 and ks = "[]" and
      bs = "Some []" and k = 10, OF m d r k1 k2 disjI1[OF b]]
  obtain k0 e where
    k0: "1 \<le> k0" "path_clear MAZE_1 [] (1, 1) (0, 1) (k0 - 1)"
      "blocked MAZE_1 (cell_after (1, 1) (0, 1) k0) \<or> locked MAZE_1 [] (cell_after (1, 1) (0, 1) k0)" and
    v: "validate_move MAZES 1 (1, 1) ''right'' 11 [] (Some []) = Inr (Invalid e)" and
    kind: "if blocked MAZE_1 (cell_after (1, 1) (0, 1) k0) then e = ''Hit wall or boundary''
            else (\<exists>c. (c, cell_after (1, 1) (0, 1) k0) \<in> set (doors MAZE_1) \<and> c \<notin> set [] \<and>
                      e = ''Need '' @ c @ '' key to pass'')" and
    o: "\<forall>gs uid st.
          gs (uid, 1) = Some st \<and> position st = (1, 1) \<and> collected_keys st = [] \<and>
          Some [] = Some (collected_books st) \<longrightarrow>
          submit_move MAZES gs (Some uid) \<lparr>direction = ''right'', steps = 11, maze_id = 1\<rparr> =
            (Returned (Invalid e), gs)" and
    w: "\<forall>gs uid.
          gs (uid, 1) = None \<and> (1, 1) = start_pos MAZE_1 \<and> [] = ([] :: string list) \<and>
          Some [] = Some ([] :: string list) \<longrightarrow>
          submit_move MAZES gs (Some uid) \<lparr>direction = ''right'', steps = 11, maze_id = 1\<rparr> =
            (Returned (Invalid e),
             gs((uid, 1) \<mapsto> \<lparr>position = start_pos MAZE_1, collected_keys = [],
                                 collected_books = []\<rparr>))"
    by (elim exE conjE)
  have k06: "k0 = 6"
  proof (rule ccontr)
    assume ne: "k0 \<noteq> 6"
    show False
    proof (cases "k0 < 6")
      case True
      with k0(1) clear5 have "\<not> blocked MAZE_1 (cell_after (1, 1) (0, 1) k0) \<and>
          \<not> locked MAZE_1 [] (cell_after (1, 1) (0, 1) k0)"
        unfolding path_clear_iff by simp
      with k0(3) show False by simp
    next
      case False
      with ne have "6 \<le> k0 - 1" by simp
      with k0(2) have "\<not> locked MAZE_1 [] (cell_after (1, 1) (0, 1) 6)"
        unfolding path_clear_iff by simp
      with lock6 show False by simp
    qed
  qed
  from kind open6 obtain c where c: "(c, (1, 7)) \<in> set (doors MAZE_1)"
    and ec: "e = ''Need '' @ c @ '' key to pass''"
    unfolding k06 c6 by auto
  from only_blue[OF c] ec have e: "e = ''Need blue key to pass''" by simp
  have 1: "validate_move MAZES 1 (1, 1) ''right'' 11 [] (Some []) = Inr (Invalid ''Need blue key to pass'')"
    using v unfolding e .
  have 2: "submit_move MAZES
       [(42, 1) \<mapsto> \<lparr>position = (1, 1), collected_keys = [], collected_books = []\<rparr>]
       (Some 42) \<lparr>direction = ''right'', steps = 11, maze_id = 1\<rparr> =
     (Returned (Invalid ''Need blue key to pass''),
      [(42, 1) \<mapsto> \<lparr>position = (1, 1), collected_keys = [], collected_books = []\<rparr>])"
    using o[rule_format, of "[(42, 1) \<mapsto> \<lparr>position = (1, 1), collected_keys = [], collected_books = []\<rparr>]" 42
        "\<lparr>position = (1, 1), collected_keys = [], collected_books = []\<rparr>"]
    unfolding e by simp
  have 3: "submit_move MAZES Map.empty
       (Some 42) \<lparr>direction = ''right'', steps = 11, maze_id = 1\<rparr> =
     (Returned (Invalid ''Need blue key to pass''),
      [(42, 1) \<mapsto> \<lparr>position = start_pos MAZE_1, collected_keys = [], collected_books = []\<rparr>])"
    using w[rule_format, of Map.empty 42] unfolding e by (simp add: st)
  show ?thesis by (intro conjI m d r k1 k2 b 1 2 3)
qed

text \<open>
  The last part of the claim as the specification words it fails: from the start of
  maze 1, eleven steps to the right leave the grid at the tenth step (column 11 of an
  11-column grid), yet the answer is the locked blue door met at the sixth step, not
  \<open>Hit wall or boundary\<close>.
\<close>

theorem exit_grid_error_counterexample:
  "snd (cell_after (1, 1) (0, 1) 10) \<ge> int (length (hd (grid MAZE_1))) \<and>
   blocked MAZE_1 (cell_after (1, 1) (0, 1) 10) \<and>
   validate_move MAZES 1 (1, 1) ''right'' 11 [] (Some []) =
     Inr (Invalid ''Need blue key to pass'') \<and>
   validate_move MAZES 1 (1, 1) ''right'' 11 [] (Some []) \<noteq>
     Inr (Invalid ''Hit wall or boundary'')"
proof -
  have a: "snd (cell_after (1, 1) (0, 1) 10) \<ge> int (length (hd (grid MAZE_1)))"
    by (simp add: cell_after_def MAZE_1_def)
  then have b: "blocked MAZE_1 (cell_after (1, 1) (0, 1) 10)"
    unfolding blocked_def by blast
  have v: "validate_move MAZES 1 (1, 1) ''right'' 11 [] (Some []) =
     Inr (Invalid ''Need blue key to pass'')"
    by code_simp
  have n: "validate_move MAZES 1 (1, 1) ''right'' 11 [] (Some []) \<noteq>
     Inr (Invalid ''Hit wall or boundary'')"
    unfolding v by simp
  show ?thesis by (intro conjI a b v n)
qed

end
